theory Spec2Isabelle
  imports Main "HOL-Library.FSet" "HOL-Library.Multiset"
begin

section \<open>Edge records (gdwg\_graph.h, classes edge, weighted\_edge, unweighted\_edge)\<close>

text \<open>
  The abstract class \<open>edge<N, E>\<close> has exactly two concrete subclasses, so an edge
  record is a value of a two-constructor datatype. Both subclasses carry the public
  fields \<open>src\<close> and \<open>dst\<close>; \<open>weighted_edge\<close> adds the private field \<open>_weight\<close>.
  The graph owns every record through a \<open>unique_ptr\<close>, so no two graphs share a
  record and a record is modelled by its value.
\<close>

datatype ('n, 'e) edge =
    weighted_edge (src: 'n) (dst: 'n) 'e
  | unweighted_edge (src: 'n) (dst: 'n)

text \<open>
  Stream insertion \<open>os << x\<close> for the node type and the weight type is a parameter
  of everything that prints: \<open>shn\<close> renders a node, \<open>she\<close> a weight.
\<close>

fun print_edge :: "('n \<Rightarrow> string) \<Rightarrow> ('e \<Rightarrow> string) \<Rightarrow> ('n, 'e) edge \<Rightarrow> string" where
  "print_edge shn she (weighted_edge s d w) = shn s @ '' -> '' @ shn d @ '' | W | '' @ she w"
| "print_edge shn she (unweighted_edge s d) = shn s @ '' -> '' @ shn d @ '' | U''"

fun is_weighted :: "('n, 'e) edge \<Rightarrow> bool" where
  "is_weighted (weighted_edge s d w) = True"
| "is_weighted (unweighted_edge s d) = False"

fun get_weight :: "('n, 'e) edge \<Rightarrow> 'e option" where
  "get_weight (weighted_edge s d w) = Some w"
| "get_weight (unweighted_edge s d) = None"

fun get_nodes :: "('n, 'e) edge \<Rightarrow> 'n \<times> 'n" where
  "get_nodes (weighted_edge s d w) = (s, d)"
| "get_nodes (unweighted_edge s d) = (s, d)"

text \<open>
  \<open>operator==\<close> is virtual: the left operand selects the override, which
  \<open>dynamic_cast\<close>s the right operand to its own class and answers false when the
  cast fails.
\<close>

fun edge_eq :: "('n, 'e) edge \<Rightarrow> ('n, 'e) edge \<Rightarrow> bool" where
  "edge_eq (weighted_edge s d w) other =
     (case other of
        weighted_edge s' d' w' \<Rightarrow> s = s' \<and> d = d' \<and> w = w'
      | unweighted_edge s' d' \<Rightarrow> False)"
| "edge_eq (unweighted_edge s d) other =
     (case other of
        weighted_edge s' d' w' \<Rightarrow> False
      | unweighted_edge s' d' \<Rightarrow> s = s' \<and> d = d')"

fun clone :: "('n, 'e) edge \<Rightarrow> ('n, 'e) edge" where
  "clone (weighted_edge s d w) = weighted_edge s d w"
| "clone (unweighted_edge s d) = unweighted_edge s d"

text \<open>Assignment to the public fields \<open>edge->src\<close> and \<open>edge->dst\<close>.\<close>

fun set_src :: "'n \<Rightarrow> ('n, 'e) edge \<Rightarrow> ('n, 'e) edge" where
  "set_src v (weighted_edge s d w) = weighted_edge v d w"
| "set_src v (unweighted_edge s d) = unweighted_edge v d"

fun set_dst :: "'n \<Rightarrow> ('n, 'e) edge \<Rightarrow> ('n, 'e) edge" where
  "set_dst v (weighted_edge s d w) = weighted_edge s v w"
| "set_dst v (unweighted_edge s d) = unweighted_edge s v"


section \<open>Standard-library algorithms used by the graph\<close>

text \<open>\<open>operator<\<close> of \<open>std::optional\<close>: an empty optional is below every engaged one.\<close>

fun optional_less :: "'e::linorder option \<Rightarrow> 'e option \<Rightarrow> bool" where
  "optional_less lhs None = False"
| "optional_less None (Some b) = True"
| "optional_less (Some a) (Some b) = (a < b)"

text \<open>
  \<open>std::sort(first, last, cmp)\<close>. The standard fixes the result only up to the order
  of \<open>cmp\<close>-equivalent elements; the model is insertion sort. For \<open>edge_compare\<close>
  below two equivalent records are equal, so every sorting algorithm returns the
  same sequence (lemma \<open>std_sort_edge_compare_unique\<close>).
\<close>

fun sort_insert :: "('a \<Rightarrow> 'a \<Rightarrow> bool) \<Rightarrow> 'a \<Rightarrow> 'a list \<Rightarrow> 'a list" where
  "sort_insert cmp x [] = [x]"
| "sort_insert cmp x (y # ys) =
     (if cmp x y then x # y # ys else y # sort_insert cmp x ys)"

fun std_sort :: "('a \<Rightarrow> 'a \<Rightarrow> bool) \<Rightarrow> 'a list \<Rightarrow> 'a list" where
  "std_sort cmp [] = []"
| "std_sort cmp (x # xs) = sort_insert cmp x (std_sort cmp xs)"

text \<open>
  \<open>std::unique(first, last, pred)\<close> followed by \<open>erase\<close> of the tail: of every run
  of consecutive elements that \<open>pred\<close> relates to the kept one, the first stays.
\<close>

fun std_unique :: "('a \<Rightarrow> 'a \<Rightarrow> bool) \<Rightarrow> 'a list \<Rightarrow> 'a list" where
  "std_unique pred [] = []"
| "std_unique pred [x] = [x]"
| "std_unique pred (x # y # ys) =
     (if pred x y then std_unique pred (x # ys) else x # std_unique pred (y # ys))"

text \<open>\<open>std::remove_if(first, last, pred)\<close> followed by \<open>erase\<close> of the tail.\<close>

definition remove_if :: "('a \<Rightarrow> bool) \<Rightarrow> 'a list \<Rightarrow> 'a list" where
  "remove_if pred xs = filter (\<lambda>x. \<not> pred x) xs"

text \<open>
  \<open>std::find_if\<close>: the position of the first element satisfying \<open>pred\<close>, or the
  length of the list for the end iterator.
\<close>

fun find_if :: "('a \<Rightarrow> bool) \<Rightarrow> 'a list \<Rightarrow> nat" where
  "find_if pred [] = 0"
| "find_if pred (x # xs) = (if pred x then 0 else Suc (find_if pred xs))"

definition any_of :: "('a \<Rightarrow> bool) \<Rightarrow> 'a list \<Rightarrow> bool" where
  "any_of pred xs = list_ex pred xs"

text \<open>
  \<open>os << n\<close> for an \<open>int\<close>: decimal digits, with a minus sign for a negative value.
  Used where a rendering is evaluated on the \<open>graph<int, int>\<close> of the tests.
\<close>

fun show_nat :: "nat \<Rightarrow> string" where
  "show_nat n =
     (if n < 10 then [char_of (48 + n)]
      else show_nat (n div 10) @ [char_of (48 + n mod 10)])"

definition show_int :: "int \<Rightarrow> string" where
  "show_int i = (if i < 0 then ''-'' @ show_nat (nat (- i)) else show_nat (nat i))"


section \<open>The graph (class graph)\<close>

datatype error = runtime_error string

text \<open>
  \<open>_nodes\<close> is a \<open>std::set<N>\<close>: a finite set, iterated in ascending order.
  \<open>_edges\<close> is a \<open>std::vector\<close> of owned edge records.
\<close>

record ('n, 'e) graph =
  g_nodes :: "'n fset"
  g_edges :: "('n, 'e) edge list"

definition edge_compare :: "('n::linorder, 'e::linorder) edge \<Rightarrow> ('n, 'e) edge \<Rightarrow> bool" where
  "edge_compare lhs rhs =
     (if src lhs \<noteq> src rhs then src lhs < src rhs
      else if dst lhs \<noteq> dst rhs then dst lhs < dst rhs
      else if is_weighted lhs \<noteq> is_weighted rhs then \<not> is_weighted lhs
      else if is_weighted lhs \<and> is_weighted rhs
        then optional_less (get_weight lhs) (get_weight rhs)
      else False)"

subsection \<open>Constructors\<close>

definition graph_default :: "('n, 'e) graph" where
  "graph_default = \<lparr>g_nodes = {||}, g_edges = []\<rparr>"

definition graph_il :: "'n list \<Rightarrow> ('n, 'e) graph" where
  "graph_il il = \<lparr>g_nodes = fset_of_list il, g_edges = []\<rparr>"

text \<open>The range constructor inserts the values one by one into the empty node set.\<close>

fun range_insert :: "'n list \<Rightarrow> 'n fset \<Rightarrow> 'n fset" where
  "range_insert [] ns = ns"
| "range_insert (x # xs) ns = range_insert xs (finsert x ns)"

definition graph_range :: "'n list \<Rightarrow> ('n, 'e) graph" where
  "graph_range xs = \<lparr>g_nodes = range_insert xs {||}, g_edges = []\<rparr>"

subsection \<open>Queries\<close>

definition is_node :: "('n, 'e) graph \<Rightarrow> 'n \<Rightarrow> bool" where
  "is_node g v = (v |\<in>| g_nodes g)"

definition empty :: "('n, 'e) graph \<Rightarrow> bool" where
  "empty g = (g_nodes g = {||} \<and> g_edges g = [])"

definition is_connected_msg :: string where
  "is_connected_msg =
     ''Cannot call gdwg::graph<N, E>::is_connected if src or dst node don't exist in the graph''"

definition is_connected :: "('n, 'e) graph \<Rightarrow> 'n \<Rightarrow> 'n \<Rightarrow> error + bool" where
  "is_connected g s d =
     (if \<not> is_node g s \<or> \<not> is_node g d then Inl (runtime_error is_connected_msg)
      else Inr (any_of (\<lambda>e. src e = s \<and> dst e = d) (g_edges g)))"

definition nodes :: "('n::linorder, 'e) graph \<Rightarrow> 'n list" where
  "nodes g = sorted_list_of_fset (g_nodes g)"

definition edges_msg :: string where
  "edges_msg =
     ''Cannot call gdwg::graph<N, E>::edges if src or dst node don't exist in the graph''"

definition edges :: "('n::linorder, 'e::linorder) graph \<Rightarrow> 'n \<Rightarrow> 'n \<Rightarrow> error + ('n, 'e) edge list" where
  "edges g s d =
     (if \<not> is_node g s \<or> \<not> is_node g d then Inl (runtime_error edges_msg)
      else Inr (std_sort edge_compare
                  (map clone (filter (\<lambda>e. src e = s \<and> dst e = d) (g_edges g)))))"

text \<open>The predicate shared by \<open>find\<close> and \<open>erase_edge\<close>.\<close>

definition edge_matches :: "'n \<Rightarrow> 'n \<Rightarrow> 'e option \<Rightarrow> ('n, 'e) edge \<Rightarrow> bool" where
  "edge_matches s d weight e =
     (if src e = s \<and> dst e = d then
        (case weight of
           Some w \<Rightarrow> is_weighted e \<and> get_weight e = weight
         | None \<Rightarrow> \<not> is_weighted e)
      else False)"

definition find :: "('n, 'e) graph \<Rightarrow> 'n \<Rightarrow> 'n \<Rightarrow> 'e option \<Rightarrow> nat" where
  "find g s d weight = find_if (edge_matches s d weight) (g_edges g)"

definition connections_msg :: string where
  "connections_msg =
     ''Cannot call gdwg::graph<N, E>::connections if src doesn't exist in the graph''"

fun connections_loop :: "'n \<Rightarrow> ('n, 'e) edge list \<Rightarrow> 'n fset \<Rightarrow> 'n fset" where
  "connections_loop s [] result = result"
| "connections_loop s (e # es) result =
     connections_loop s es (if src e = s then finsert (dst e) result else result)"

definition connections :: "('n::linorder, 'e) graph \<Rightarrow> 'n \<Rightarrow> error + 'n list" where
  "connections g s =
     (if \<not> is_node g s then Inl (runtime_error connections_msg)
      else Inr (sorted_list_of_fset (connections_loop s (g_edges g) {||})))"

text \<open>
  Walking the iterator from \<open>begin()\<close> to \<open>end()\<close> and dereferencing at every
  position gives the \<open>{from, to, weight}\<close> values in the order of \<open>_edges\<close>.
\<close>

definition deref :: "('n, 'e) edge \<Rightarrow> 'n \<times> 'n \<times> 'e option" where
  "deref e = (fst (get_nodes e), snd (get_nodes e), get_weight e)"

definition iterate :: "('n, 'e) graph \<Rightarrow> ('n \<times> 'n \<times> 'e option) list" where
  "iterate g = map deref (g_edges g)"

subsection \<open>Modifiers\<close>

text \<open>
  A modifier returns its result together with the graph it leaves behind. A thrown
  \<open>std::runtime_error\<close> is the result \<open>Inl\<close>; the graph next to it is the state
  of the object at the \<open>throw\<close>.
\<close>

definition insert_node :: "('n, 'e) graph \<Rightarrow> 'n \<Rightarrow> bool \<times> ('n, 'e) graph" where
  "insert_node g v = (v |\<notin>| g_nodes g, g\<lparr>g_nodes := finsert v (g_nodes g)\<rparr>)"

definition insert_edge_msg :: string where
  "insert_edge_msg =
     ''Cannot call gdwg::graph<N, E>::insert_edge when either src or dst node does not exist''"

definition make_edge :: "'n \<Rightarrow> 'n \<Rightarrow> 'e option \<Rightarrow> ('n, 'e) edge" where
  "make_edge s d weight =
     (case weight of Some w \<Rightarrow> weighted_edge s d w | None \<Rightarrow> unweighted_edge s d)"

definition insert_edge ::
  "('n::linorder, 'e::linorder) graph \<Rightarrow> 'n \<Rightarrow> 'n \<Rightarrow> 'e option \<Rightarrow> (error + bool) \<times> ('n, 'e) graph" where
  "insert_edge g s d weight =
     (if \<not> is_node g s \<or> \<not> is_node g d then (Inl (runtime_error insert_edge_msg), g)
      else
        let new_edge = make_edge s d weight in
        if find_if (\<lambda>e. edge_eq e new_edge) (g_edges g) \<noteq> length (g_edges g)
        then (Inr False, g)
        else (Inr True, g\<lparr>g_edges := std_sort edge_compare (g_edges g @ [new_edge])\<rparr>))"

text \<open>The loop shared by \<open>replace_node\<close> and \<open>merge_replace_node\<close>.\<close>

definition rewrite_edge :: "'n \<Rightarrow> 'n \<Rightarrow> ('n, 'e) edge \<Rightarrow> ('n, 'e) edge" where
  "rewrite_edge old_data new_data e =
     (let e1 = (if src e = old_data then set_src new_data e else e);
          e2 = (if dst e1 = old_data then set_dst new_data e1 else e1)
      in e2)"

fun rewrite_edges :: "'n \<Rightarrow> 'n \<Rightarrow> ('n, 'e) edge list \<Rightarrow> ('n, 'e) edge list" where
  "rewrite_edges old_data new_data [] = []"
| "rewrite_edges old_data new_data (e # es) =
     rewrite_edge old_data new_data e # rewrite_edges old_data new_data es"

definition replace_node_msg :: string where
  "replace_node_msg =
     ''Cannot call gdwg::graph<N, E>::replace_node on a node that doesn't exist''"

definition replace_node ::
  "('n, 'e) graph \<Rightarrow> 'n \<Rightarrow> 'n \<Rightarrow> (error + bool) \<times> ('n, 'e) graph" where
  "replace_node g old_data new_data =
     (if \<not> is_node g old_data then (Inl (runtime_error replace_node_msg), g)
      else if is_node g new_data then (Inr False, g)
      else (Inr True,
            g\<lparr>g_edges := rewrite_edges old_data new_data (g_edges g),
              g_nodes := finsert new_data (g_nodes g |-| {|old_data|})\<rparr>))"

definition merge_replace_node_msg :: string where
  "merge_replace_node_msg =
     ''Cannot call gdwg::graph<N, E>::merge_replace_node on old or new data if they don't exist in the graph''"

definition merge_replace_node ::
  "('n::linorder, 'e::linorder) graph \<Rightarrow> 'n \<Rightarrow> 'n \<Rightarrow> (error + unit) \<times> ('n, 'e) graph" where
  "merge_replace_node g old_data new_data =
     (if \<not> is_node g old_data \<or> \<not> is_node g new_data
      then (Inl (runtime_error merge_replace_node_msg), g)
      else (Inr (),
            g\<lparr>g_edges := std_unique edge_eq
                           (std_sort edge_compare
                              (rewrite_edges old_data new_data (g_edges g))),
              g_nodes := g_nodes g |-| {|old_data|}\<rparr>))"

definition erase_node :: "('n, 'e) graph \<Rightarrow> 'n \<Rightarrow> bool \<times> ('n, 'e) graph" where
  "erase_node g v =
     (if \<not> is_node g v then (False, g)
      else (True,
            g\<lparr>g_nodes := g_nodes g |-| {|v|},
              g_edges := remove_if (\<lambda>e. src e = v \<or> dst e = v) (g_edges g)\<rparr>))"

definition erase_edge_msg :: string where
  "erase_edge_msg =
     ''Cannot call gdwg::graph<N, E>::erase_edge on src or dst if they don't exist in the graph''"

text \<open>
  \<open>remove_if\<close> returns the end iterator exactly when it removed nothing, that is,
  when the kept prefix is as long as the vector.
\<close>

definition erase_edge ::
  "('n, 'e) graph \<Rightarrow> 'n \<Rightarrow> 'n \<Rightarrow> 'e option \<Rightarrow> (error + bool) \<times> ('n, 'e) graph" where
  "erase_edge g s d weight =
     (if \<not> is_node g s \<or> \<not> is_node g d then (Inl (runtime_error erase_edge_msg), g)
      else
        let kept = remove_if (edge_matches s d weight) (g_edges g) in
        if length kept \<noteq> length (g_edges g)
        then (Inr True, g\<lparr>g_edges := kept\<rparr>)
        else (Inr False, g))"

definition clear :: "('n, 'e) graph \<Rightarrow> ('n, 'e) graph" where
  "clear g = g\<lparr>g_nodes := {||}, g_edges := []\<rparr>"

subsection \<open>Comparison and output\<close>

text \<open>
  \<open>operator==\<close> of the graph. The loops append a pair for an unweighted record and
  a triple (with \<open>get_weight().value()\<close>) for a weighted one.
\<close>

fun split_edges ::
  "('n, 'e) edge list \<Rightarrow> ('n \<times> 'n) list \<times> ('n \<times> 'n \<times> 'e) list
     \<Rightarrow> ('n \<times> 'n) list \<times> ('n \<times> 'n \<times> 'e) list" where
  "split_edges [] (us, ws) = (us, ws)"
| "split_edges (weighted_edge s d w # es) (us, ws) = split_edges es (us, ws @ [(s, d, w)])"
| "split_edges (unweighted_edge s d # es) (us, ws) = split_edges es (us @ [(s, d)], ws)"

definition graph_eq :: "('n, 'e) graph \<Rightarrow> ('n, 'e) graph \<Rightarrow> bool" where
  "graph_eq g other =
     (if g_nodes g \<noteq> g_nodes other \<or> length (g_edges g) \<noteq> length (g_edges other) then False
      else
        let (this_edges, this_weighted_edges) = split_edges (g_edges g) ([], []);
            (other_edges, other_weighted_edges) = split_edges (g_edges other) ([], [])
        in if this_edges \<noteq> other_edges \<or> this_weighted_edges \<noteq> other_weighted_edges
           then False else True)"

text \<open>
  \<open>operator<<\<close> of the graph. The stream is the string written so far; every
  \<open>os << x\<close> appends to it.
\<close>

fun collect_lines ::
  "('n \<Rightarrow> string) \<Rightarrow> ('e \<Rightarrow> string) \<Rightarrow> 'n \<Rightarrow> ('n, 'e) edge list
     \<Rightarrow> string list \<times> string list \<Rightarrow> string list \<times> string list" where
  "collect_lines shn she node [] (unweighted_edges, weighted_edges) =
     (unweighted_edges, weighted_edges)"
| "collect_lines shn she node (e # es) (unweighted_edges, weighted_edges) =
     collect_lines shn she node es
       (if src e = node then
          (if is_weighted e
           then (unweighted_edges,
                 weighted_edges @ [''  '' @ print_edge shn she e @ ''\<newline>''])
           else (unweighted_edges @ [''  '' @ print_edge shn she e @ ''\<newline>''],
                 weighted_edges))
        else (unweighted_edges, weighted_edges))"

fun write_all :: "string list \<Rightarrow> string \<Rightarrow> string" where
  "write_all [] os = os"
| "write_all (l # ls) os = write_all ls (os @ l)"

definition write_node ::
  "('n \<Rightarrow> string) \<Rightarrow> ('e \<Rightarrow> string) \<Rightarrow> ('n, 'e) graph \<Rightarrow> 'n \<Rightarrow> string \<Rightarrow> string" where
  "write_node shn she g node os =
     (let os1 = os @ shn node @ '' (\<newline>'';
          (unweighted_edges, weighted_edges) = collect_lines shn she node (g_edges g) ([], []);
          os2 = write_all unweighted_edges os1;
          os3 = write_all weighted_edges os2
      in os3 @ '')\<newline>'')"

fun write_nodes ::
  "('n \<Rightarrow> string) \<Rightarrow> ('e \<Rightarrow> string) \<Rightarrow> ('n, 'e) graph \<Rightarrow> 'n list \<Rightarrow> string \<Rightarrow> string" where
  "write_nodes shn she g [] os = os"
| "write_nodes shn she g (node # ns) os = write_nodes shn she g ns (write_node shn she g node os)"

definition operator_out ::
  "('n::linorder \<Rightarrow> string) \<Rightarrow> ('e \<Rightarrow> string) \<Rightarrow> ('n, 'e) graph \<Rightarrow> string" where
  "operator_out shn she g = write_nodes shn she g (sorted_list_of_fset (g_nodes g)) ''\<newline>''"


section \<open>The ordering of the edge store\<close>

text \<open>
  The order the specification asks of the edge store: \<open>a\<close> may stand before \<open>b\<close>
  when its source is smaller; for equal sources, when its destination is smaller;
  for equal endpoints, when it is unweighted, or when both are weighted and its
  weight is not larger.
\<close>

definition weight_before :: "'e::linorder option \<Rightarrow> 'e option \<Rightarrow> bool" where
  "weight_before a b =
     (case a of
        None \<Rightarrow> True
      | Some x \<Rightarrow> (case b of None \<Rightarrow> False | Some y \<Rightarrow> x \<le> y))"

definition spec_order :: "('n::linorder, 'e::linorder) edge \<Rightarrow> ('n, 'e) edge \<Rightarrow> bool" where
  "spec_order a b =
     (src a < src b \<or>
      (src a = src b \<and>
        (dst a < dst b \<or>
         (dst a = dst b \<and> weight_before (get_weight a) (get_weight b)))))"

definition edges_sorted :: "('n::linorder, 'e::linorder) graph \<Rightarrow> bool" where
  "edges_sorted g = sorted_wrt spec_order (g_edges g)"

section \<open>Equality as the specification words it\<close>

text \<open>
  The two lists of the specification's equality: the (src, dst) pairs of the unweighted
  records and the (src, dst, weight) triples of the weighted records, each in storage
  order.
\<close>

fun unweighted_pairs :: "('n, 'e) edge list \<Rightarrow> ('n \<times> 'n) list" where
  "unweighted_pairs [] = []"
| "unweighted_pairs (weighted_edge s d w # es) = unweighted_pairs es"
| "unweighted_pairs (unweighted_edge s d # es) = (s, d) # unweighted_pairs es"

fun weighted_triples :: "('n, 'e) edge list \<Rightarrow> ('n \<times> 'n \<times> 'e) list" where
  "weighted_triples [] = []"
| "weighted_triples (weighted_edge s d w # es) = (s, d, w) # weighted_triples es"
| "weighted_triples (unweighted_edge s d # es) = weighted_triples es"

definition spec_equal :: "('n, 'e) graph \<Rightarrow> ('n, 'e) graph \<Rightarrow> bool" where
  "spec_equal g h =
     (fset (g_nodes g) = fset (g_nodes h)
      \<and> unweighted_pairs (g_edges g) = unweighted_pairs (g_edges h)
      \<and> weighted_triples (g_edges g) = weighted_triples (g_edges h))"

text \<open>
  Building a graph as the tests do: a sequence of \<open>insert_node\<close> and \<open>insert_edge\<close>
  calls on a graph, stopping at the first call that throws.
\<close>

datatype ('n, 'e) build_step = Insert_node 'n | Insert_edge 'n 'n "'e option"

fun build ::
  "('n::linorder, 'e::linorder) build_step list \<Rightarrow> ('n, 'e) graph \<Rightarrow> error + ('n, 'e) graph" where
  "build [] g = Inr g"
| "build (Insert_node v # steps) g = build steps (snd (insert_node g v))"
| "build (Insert_edge s d weight # steps) g =
     (case fst (insert_edge g s d weight) of
        Inl e \<Rightarrow> Inl e
      | Inr b \<Rightarrow> build steps (snd (insert_edge g s d weight)))"


section \<open>The rendering as the specification words it\<close>

text \<open>
  The block of a node, with the weighted lines in ascending order of weight, as the
  specification's rendering section says. \<open>weighted_lines\<close> pairs every weighted
  record leaving \<open>node\<close> with its weight, and \<open>sort_key fst\<close> orders the pairs by
  weight (a stable sort, so records of equal weight stay in storage order).
\<close>

fun weighted_lines ::
  "('n \<Rightarrow> string) \<Rightarrow> ('e \<Rightarrow> string) \<Rightarrow> 'n \<Rightarrow> ('n, 'e) edge list \<Rightarrow> ('e \<times> string) list" where
  "weighted_lines shn she node [] = []"
| "weighted_lines shn she node (weighted_edge s d w # es) =
     (if s = node
      then (w, ''  '' @ print_edge shn she (weighted_edge s d w) @ ''\<newline>'')
             # weighted_lines shn she node es
      else weighted_lines shn she node es)"
| "weighted_lines shn she node (unweighted_edge s d # es) = weighted_lines shn she node es"

definition unweighted_lines ::
  "('n \<Rightarrow> string) \<Rightarrow> ('e \<Rightarrow> string) \<Rightarrow> 'n \<Rightarrow> ('n, 'e) edge list \<Rightarrow> string list" where
  "unweighted_lines shn she node es =
     map (\<lambda>e. ''  '' @ print_edge shn she e @ ''\<newline>'')
       (filter (\<lambda>e. src e = node \<and> \<not> is_weighted e) es)"

definition spec_block ::
  "('n \<Rightarrow> string) \<Rightarrow> ('e::linorder \<Rightarrow> string) \<Rightarrow> ('n, 'e) graph \<Rightarrow> 'n \<Rightarrow> string" where
  "spec_block shn she g node =
     shn node @ '' (\<newline>''
     @ concat (unweighted_lines shn she node (g_edges g))
     @ concat (map snd (sort_key fst (weighted_lines shn she node (g_edges g))))
     @ '')\<newline>''"

definition spec_text ::
  "('n::linorder \<Rightarrow> string) \<Rightarrow> ('e::linorder \<Rightarrow> string) \<Rightarrow> ('n, 'e) graph \<Rightarrow> string" where
  "spec_text shn she g =
     ''\<newline>'' @ concat (map (spec_block shn she g) (sorted_list_of_fset (g_nodes g)))"


section \<open>Facts about the edge order and the library algorithms\<close>

lemma edge_eq_iff: "edge_eq a b \<longleftrightarrow> a = b"
  by (cases a; cases b) auto

lemma spec_order_compare: "spec_order a b \<longleftrightarrow> \<not> edge_compare b a"
  by (cases a; cases b) (auto simp: spec_order_def edge_compare_def weight_before_def)

lemma edge_compare_iff: "edge_compare a b \<longleftrightarrow> spec_order a b \<and> a \<noteq> b"
  by (cases a; cases b) (auto simp: spec_order_def edge_compare_def weight_before_def)

lemma spec_order_refl: "spec_order a a"
  by (cases a) (auto simp: spec_order_def weight_before_def)

lemma spec_order_trans: "spec_order a b \<Longrightarrow> spec_order b c \<Longrightarrow> spec_order a c"
  by (cases a; cases b; cases c) (auto simp: spec_order_def weight_before_def)

lemma spec_order_antisym: "spec_order a b \<Longrightarrow> spec_order b a \<Longrightarrow> a = b"
  by (cases a; cases b) (auto simp: spec_order_def weight_before_def)

lemma spec_order_total: "spec_order a b \<or> spec_order b a"
  by (cases a; cases b) (auto simp: spec_order_def weight_before_def)

lemma set_sort_insert: "set (sort_insert cmp x xs) = insert x (set xs)"
  by (induction xs) auto

lemma mset_sort_insert: "mset (sort_insert cmp x xs) = add_mset x (mset xs)"
  by (induction xs) auto

lemma mset_std_sort: "mset (std_sort cmp xs) = mset xs"
  by (induction xs) (auto simp: mset_sort_insert)

lemma set_std_sort: "set (std_sort cmp xs) = set xs"
  by (induction xs) (auto simp: set_sort_insert)

lemma sorted_sort_insert:
  "sorted_wrt spec_order xs \<Longrightarrow> sorted_wrt spec_order (sort_insert edge_compare x xs)"
proof (induction xs)
  case Nil
  then show ?case by simp
next
  case (Cons y ys)
  show ?case
  proof (cases "edge_compare x y")
    case True
    then have xy: "spec_order x y" by (simp add: edge_compare_iff)
    have "\<forall>z\<in>set ys. spec_order x z"
      using Cons.prems xy by (auto intro: spec_order_trans)
    with True xy Cons.prems show ?thesis by simp
  next
    case False
    then have "spec_order y x" by (simp add: spec_order_compare)
    with False Cons show ?thesis by (auto simp: set_sort_insert)
  qed
qed

lemma sorted_std_sort: "sorted_wrt spec_order (std_sort edge_compare xs)"
  by (induction xs) (auto intro: sorted_sort_insert)

lemma sorted_spec_order_unique:
  "sorted_wrt spec_order xs \<Longrightarrow> sorted_wrt spec_order ys \<Longrightarrow> mset xs = mset ys \<Longrightarrow> xs = ys"
proof (induction xs arbitrary: ys)
  case Nil
  then show ?case by simp
next
  case (Cons x xs)
  then obtain y ys' where ys: "ys = y # ys'" by (cases ys) auto
  have "x = y"
  proof (rule ccontr)
    assume neq: "x \<noteq> y"
    have "x \<in> set ys" using Cons.prems(3) by (metis list.set_intros(1) mset_eq_setD)
    with neq ys have "x \<in> set ys'" by auto
    then have 1: "spec_order y x" using Cons.prems(2) ys by auto
    have "y \<in> set (x # xs)" using Cons.prems(3) ys by (metis list.set_intros(1) mset_eq_setD)
    with neq have "y \<in> set xs" by auto
    then have 2: "spec_order x y" using Cons.prems(1) by auto
    from 1 2 neq show False by (auto dest: spec_order_antisym)
  qed
  moreover have "xs = ys'"
    using Cons.IH[of ys'] Cons.prems ys \<open>x = y\<close> by auto
  ultimately show ?case using ys by simp
qed

lemma std_sort_edge_compare_unique:
  "mset ys = mset xs \<Longrightarrow> sorted_wrt spec_order ys \<Longrightarrow> ys = std_sort edge_compare xs"
  by (rule sorted_spec_order_unique) (auto simp: sorted_std_sort mset_std_sort)

section \<open>Constructors\<close>

lemma range_insert_fset: "range_insert xs ns = fset_of_list xs |\<union>| ns"
  by (induction xs arbitrary: ns) auto

text \<open>
  C10. The initializer-list constructor and the range constructor build a graph whose
  node store holds exactly the values of the list, each once (\<open>nodes()\<close> lists them
  in ascending order without repetition), and whose edge store is empty.
\<close>

theorem constructors_nodes_only:
  "fset (g_nodes (graph_il il :: ('n::linorder, 'e) graph)) = set il
   \<and> fset (g_nodes (graph_range il :: ('n, 'e) graph)) = set il
   \<and> is_node (graph_il il :: ('n, 'e) graph) v = (v \<in> set il)
   \<and> is_node (graph_range il :: ('n, 'e) graph) v = (v \<in> set il)
   \<and> nodes (graph_il il :: ('n, 'e) graph) = sort (remdups il)
   \<and> nodes (graph_range il :: ('n, 'e) graph) = sort (remdups il)
   \<and> distinct (nodes (graph_il il :: ('n, 'e) graph))
   \<and> length (nodes (graph_il il :: ('n, 'e) graph)) = card (set il)
   \<and> g_edges (graph_il il :: ('n, 'e) graph) = []
   \<and> g_edges (graph_range il :: ('n, 'e) graph) = []
   \<and> iterate (graph_il il :: ('n, 'e) graph) = []
   \<and> iterate (graph_range il :: ('n, 'e) graph) = []"
  by (simp add: graph_il_def graph_range_def range_insert_fset is_node_def nodes_def
      iterate_def sorted_list_of_fset.rep_eq fset_of_list.rep_eq
      sorted_list_of_set_sort_remdups length_remdups_card_conv)

section \<open>Erasing a node\<close>

text \<open>
  C6. \<open>erase_node(v)\<close> returns false, raising nothing and changing nothing, when
  \<open>v\<close> is not a node. Otherwise it returns true, removes \<open>v\<close> from the node store and
  keeps, in their order, exactly the edges with neither endpoint \<open>v\<close>; afterwards
  \<open>is_connected\<close> with \<open>v\<close> as an endpoint raises the missing-node error.
\<close>

theorem erase_node_cascades:
  "(\<not> is_node g v \<longrightarrow> erase_node g v = (False, g))
   \<and> (is_node g v \<longrightarrow>
        fst (erase_node g v) = True
        \<and> g_nodes (snd (erase_node g v)) = g_nodes g |-| {|v|}
        \<and> \<not> is_node (snd (erase_node g v)) v
        \<and> (\<forall>u. u \<noteq> v \<longrightarrow> is_node (snd (erase_node g v)) u = is_node g u)
        \<and> g_edges (snd (erase_node g v)) = filter (\<lambda>e. src e \<noteq> v \<and> dst e \<noteq> v) (g_edges g)
        \<and> (\<forall>e \<in> set (g_edges (snd (erase_node g v))). src e \<noteq> v \<and> dst e \<noteq> v)
        \<and> is_connected (snd (erase_node g v)) v u =
            Inl (runtime_error ''Cannot call gdwg::graph<N, E>::is_connected if src or dst node don't exist in the graph'')
        \<and> is_connected (snd (erase_node g v)) u v =
            Inl (runtime_error ''Cannot call gdwg::graph<N, E>::is_connected if src or dst node don't exist in the graph''))"
  by (simp add: erase_node_def is_node_def remove_if_def is_connected_def is_connected_msg_def)

theorem erase_node_cascades_witness:
  "is_node \<lparr>g_nodes = {|1, 2|}, g_edges = [weighted_edge (1::int) 2 (10::int)]\<rparr> 1
   \<and> \<not> is_node \<lparr>g_nodes = {|1, 2|}, g_edges = [weighted_edge (1::int) 2 (10::int)]\<rparr> 3
   \<and> erase_node \<lparr>g_nodes = {|1, 2|}, g_edges = [weighted_edge (1::int) 2 (10::int)]\<rparr> 1
       = (True, \<lparr>g_nodes = {|2|}, g_edges = []\<rparr>)
   \<and> erase_node \<lparr>g_nodes = {|1, 2|}, g_edges = [weighted_edge (1::int) 2 (10::int)]\<rparr> 3
       = (False, \<lparr>g_nodes = {|1, 2|}, g_edges = [weighted_edge 1 2 10]\<rparr>)
   \<and> is_connected \<lparr>g_nodes = {|2|}, g_edges = ([] :: (int, int) edge list)\<rparr> 1 2 =
       Inl (runtime_error ''Cannot call gdwg::graph<N, E>::is_connected if src or dst node don't exist in the graph'')"
  using erase_node_cascades
    [of "\<lparr>g_nodes = {|1, 2|}, g_edges = [weighted_edge (1::int) 2 (10::int)]\<rparr>" 1 2]
    erase_node_cascades
    [of "\<lparr>g_nodes = {|1, 2|}, g_edges = [weighted_edge (1::int) 2 (10::int)]\<rparr>" 3 2]
  by (simp add: is_node_def erase_node_def remove_if_def is_connected_def is_connected_msg_def)

section \<open>Renaming a node\<close>

lemma length_rewrite_edges: "length (rewrite_edges old_data new_data es) = length es"
  by (induction es) auto

lemma rewrite_edges_map: "rewrite_edges old_data new_data es = map (rewrite_edge old_data new_data) es"
  by (induction es) auto

lemma src_rewrite_edge:
  "src (rewrite_edge old_data new_data e) = (if src e = old_data then new_data else src e)"
  by (cases e) (auto simp: rewrite_edge_def Let_def)

lemma dst_rewrite_edge:
  "dst (rewrite_edge old_data new_data e) = (if dst e = old_data then new_data else dst e)"
  by (cases e) (auto simp: rewrite_edge_def Let_def)

lemma get_weight_rewrite_edge:
  "get_weight (rewrite_edge old_data new_data e) = get_weight e"
  by (cases e) (auto simp: rewrite_edge_def Let_def)

text \<open>
  C4. \<open>replace_node(old, new)\<close> raises the missing-node error, leaving the graph as it
  is, when \<open>old\<close> is not a node; returns false, leaving the graph as it is, when
  \<open>new\<close> is a node; otherwise returns true, the node store loses \<open>old\<close> and gains
  \<open>new\<close>, and every edge record keeps its position and its weight while each of its
  two endpoint fields that held \<open>old\<close> now holds \<open>new\<close>.
\<close>

theorem replace_node_renames:
  "(\<not> is_node g old_data \<longrightarrow>
      replace_node g old_data new_data =
        (Inl (runtime_error ''Cannot call gdwg::graph<N, E>::replace_node on a node that doesn't exist''), g))
   \<and> (is_node g old_data \<and> is_node g new_data \<longrightarrow>
        replace_node g old_data new_data = (Inr False, g))
   \<and> (is_node g old_data \<and> \<not> is_node g new_data \<longrightarrow>
        fst (replace_node g old_data new_data) = Inr True
        \<and> g_nodes (snd (replace_node g old_data new_data)) =
            finsert new_data (g_nodes g |-| {|old_data|})
        \<and> \<not> is_node (snd (replace_node g old_data new_data)) old_data
        \<and> is_node (snd (replace_node g old_data new_data)) new_data
        \<and> length (g_edges (snd (replace_node g old_data new_data))) = length (g_edges g)
        \<and> (\<forall>i < length (g_edges g).
              src (g_edges (snd (replace_node g old_data new_data)) ! i) =
                (if src (g_edges g ! i) = old_data then new_data else src (g_edges g ! i))
              \<and> dst (g_edges (snd (replace_node g old_data new_data)) ! i) =
                (if dst (g_edges g ! i) = old_data then new_data else dst (g_edges g ! i))
              \<and> get_weight (g_edges (snd (replace_node g old_data new_data)) ! i) =
                get_weight (g_edges g ! i)))"
  by (auto simp: replace_node_def replace_node_msg_def is_node_def length_rewrite_edges
      rewrite_edges_map src_rewrite_edge dst_rewrite_edge get_weight_rewrite_edge)

theorem replace_node_renames_witness:
  "is_node \<lparr>g_nodes = {|1, 2|}, g_edges = [weighted_edge (1::int) 2 (10::int)]\<rparr> 1
   \<and> \<not> is_node \<lparr>g_nodes = {|1, 2|}, g_edges = [weighted_edge (1::int) 2 (10::int)]\<rparr> 3
   \<and> replace_node \<lparr>g_nodes = {|1, 2|}, g_edges = [weighted_edge (1::int) 2 (10::int)]\<rparr> 1 3
       = (Inr True, \<lparr>g_nodes = {|3, 2|}, g_edges = [weighted_edge 3 2 10]\<rparr>)
   \<and> replace_node \<lparr>g_nodes = {|3, 2|}, g_edges = [weighted_edge (3::int) 2 (10::int)]\<rparr> 2 3
       = (Inr False, \<lparr>g_nodes = {|3, 2|}, g_edges = [weighted_edge 3 2 10]\<rparr>)
   \<and> replace_node \<lparr>g_nodes = {|3, 2|}, g_edges = [weighted_edge (3::int) 2 (10::int)]\<rparr> 4 5
       = (Inl (runtime_error ''Cannot call gdwg::graph<N, E>::replace_node on a node that doesn't exist''),
          \<lparr>g_nodes = {|3, 2|}, g_edges = [weighted_edge 3 2 10]\<rparr>)"
  using replace_node_renames
    [of "\<lparr>g_nodes = {|1, 2|}, g_edges = [weighted_edge (1::int) 2 (10::int)]\<rparr>" 1 3]
    replace_node_renames
    [of "\<lparr>g_nodes = {|3, 2|}, g_edges = [weighted_edge (3::int) 2 (10::int)]\<rparr>" 2 3]
    replace_node_renames
    [of "\<lparr>g_nodes = {|3, 2|}, g_edges = [weighted_edge (3::int) 2 (10::int)]\<rparr>" 4 5]
  by (simp add: is_node_def replace_node_def replace_node_msg_def rewrite_edge_def Let_def)

section \<open>Inserting and erasing an edge\<close>

lemma find_if_le: "find_if pred xs \<le> length xs"
  by (induction xs) auto

lemma find_if_end: "find_if pred xs \<noteq> length xs \<longleftrightarrow> (\<exists>x\<in>set xs. pred x)"
proof (induction xs)
  case Nil
  then show ?case by simp
next
  case (Cons x xs)
  then show ?case by auto
qed

lemma make_edge_iff: "e = make_edge s d weight \<longleftrightarrow> src e = s \<and> dst e = d \<and> get_weight e = weight"
  by (cases e; cases weight) (auto simp: make_edge_def)

lemma edge_eq_make_edge:
  "edge_eq e (make_edge s d weight) \<longleftrightarrow> src e = s \<and> dst e = d \<and> get_weight e = weight"
  by (simp add: edge_eq_iff make_edge_iff)

lemma edge_matches_iff:
  "edge_matches s d weight e \<longleftrightarrow> src e = s \<and> dst e = d \<and> get_weight e = weight"
  by (cases e; cases weight) (auto simp: edge_matches_def)

lemma length_filter_neq: "length (filter P xs) \<noteq> length xs \<longleftrightarrow> (\<exists>x\<in>set xs. \<not> P x)"
  by (metis filter_True filter_id_conv length_filter_less nat_less_le)

lemma distinct_filter_eq_le1: "distinct xs \<Longrightarrow> length (filter (\<lambda>e. e = a) xs) \<le> 1"
  by (induction xs) (auto simp: filter_empty_conv)

text \<open>
  C2. \<open>insert_edge(src, dst, weight?)\<close> raises the missing-node error, leaving the
  graph as it is, when \<open>src\<close> or \<open>dst\<close> is not a node. Otherwise, when the edge
  store holds a record with this \<open>src\<close>, this \<open>dst\<close> and this weight (or, with no
  weight given, no weight), it returns false and leaves the graph as it is. Otherwise it
  returns true, the node store is unchanged, the edge store holds the old records and
  one new record, weighted exactly when a weight was given, and is sorted by the
  ordering of the specification.
\<close>

theorem insert_edge_inserts_sorted:
  "(\<not> is_node g s \<or> \<not> is_node g d \<longrightarrow>
      insert_edge g s d weight =
        (Inl (runtime_error ''Cannot call gdwg::graph<N, E>::insert_edge when either src or dst node does not exist''), g))
   \<and> (is_node g s \<and> is_node g d
        \<and> (\<exists>e\<in>set (g_edges g). src e = s \<and> dst e = d \<and> get_weight e = weight) \<longrightarrow>
        insert_edge g s d weight = (Inr False, g))
   \<and> (is_node g s \<and> is_node g d
        \<and> \<not> (\<exists>e\<in>set (g_edges g). src e = s \<and> dst e = d \<and> get_weight e = weight) \<longrightarrow>
        fst (insert_edge g s d weight) = Inr True
        \<and> g_nodes (snd (insert_edge g s d weight)) = g_nodes g
        \<and> mset (g_edges (snd (insert_edge g s d weight))) =
            add_mset (case weight of Some w \<Rightarrow> weighted_edge s d w | None \<Rightarrow> unweighted_edge s d)
              (mset (g_edges g))
        \<and> edges_sorted (snd (insert_edge g s d weight)))"
proof -
  have mk: "make_edge s d weight =
      (case weight of Some w \<Rightarrow> weighted_edge s d w | None \<Rightarrow> unweighted_edge s d)"
    by (simp add: make_edge_def)
  show ?thesis
    unfolding mk [symmetric]
    by (auto simp: insert_edge_def insert_edge_msg_def Let_def find_if_end edge_eq_make_edge
        mset_std_sort edges_sorted_def sorted_std_sort)
qed

theorem insert_edge_inserts_sorted_witness:
  "is_node \<lparr>g_nodes = {|1::int, 2|}, g_edges = [weighted_edge 1 2 (10::int)]\<rparr> 1
   \<and> is_node \<lparr>g_nodes = {|1::int, 2|}, g_edges = [weighted_edge 1 2 (10::int)]\<rparr> 2
   \<and> \<not> is_node \<lparr>g_nodes = {|1::int, 2|}, g_edges = [weighted_edge 1 2 (10::int)]\<rparr> 3
   \<and> insert_edge \<lparr>g_nodes = {|1::int, 2|}, g_edges = []\<rparr> 1 2 (Some (10::int))
       = (Inr True, \<lparr>g_nodes = {|1, 2|}, g_edges = [weighted_edge 1 2 10]\<rparr>)
   \<and> insert_edge \<lparr>g_nodes = {|1::int, 2|}, g_edges = [weighted_edge 1 2 (10::int)]\<rparr> 1 2 (Some 10)
       = (Inr False, \<lparr>g_nodes = {|1, 2|}, g_edges = [weighted_edge 1 2 10]\<rparr>)
   \<and> insert_edge \<lparr>g_nodes = {|1::int, 2|}, g_edges = [weighted_edge 1 2 (10::int)]\<rparr> 1 2 None
       = (Inr True, \<lparr>g_nodes = {|1, 2|}, g_edges = [unweighted_edge 1 2, weighted_edge 1 2 10]\<rparr>)
   \<and> edges_sorted
        (snd (insert_edge \<lparr>g_nodes = {|1::int, 2|}, g_edges = [weighted_edge 1 2 (10::int)]\<rparr> 1 2 None))
   \<and> insert_edge \<lparr>g_nodes = {|1::int, 2|}, g_edges = [weighted_edge 1 2 (10::int)]\<rparr> 1 3 (Some 5)
       = (Inl (runtime_error ''Cannot call gdwg::graph<N, E>::insert_edge when either src or dst node does not exist''),
          \<lparr>g_nodes = {|1, 2|}, g_edges = [weighted_edge 1 2 10]\<rparr>)"
proof -
  let ?g0 = "\<lparr>g_nodes = {|1::int, 2|}, g_edges = ([] :: (int, int) edge list)\<rparr>"
  let ?g1 = "\<lparr>g_nodes = {|1::int, 2|}, g_edges = [weighted_edge 1 2 (10::int)]\<rparr>"
  have nodes: "is_node ?g1 1 \<and> is_node ?g1 2 \<and> \<not> is_node ?g1 3"
    by (simp add: is_node_def)
  have fresh: "\<not> (\<exists>e\<in>set (g_edges ?g1). src e = 1 \<and> dst e = 2 \<and> get_weight e = None)"
    by simp
  have sorted: "edges_sorted (snd (insert_edge ?g1 1 2 None))"
    using insert_edge_inserts_sorted [of ?g1 1 2 None] nodes fresh by blast
  have thrown: "insert_edge ?g1 1 3 (Some 5) =
      (Inl (runtime_error ''Cannot call gdwg::graph<N, E>::insert_edge when either src or dst node does not exist''), ?g1)"
    using insert_edge_inserts_sorted [of ?g1 1 3 "Some 5"] nodes by blast
  have dup: "insert_edge ?g1 1 2 (Some 10) = (Inr False, ?g1)"
    using insert_edge_inserts_sorted [of ?g1 1 2 "Some 10"] nodes by simp
  have e0: "insert_edge ?g0 1 2 (Some 10) = (Inr True, ?g1)"
    by (simp add: is_node_def insert_edge_def make_edge_def)
  have e1: "insert_edge ?g1 1 2 None =
      (Inr True, \<lparr>g_nodes = {|1, 2|}, g_edges = [unweighted_edge 1 2, weighted_edge 1 2 10]\<rparr>)"
    by (simp add: is_node_def insert_edge_def make_edge_def edge_compare_def)
  from nodes sorted thrown dup e0 e1 show ?thesis by blast
qed

lemma filter_match_le1:
  "distinct es \<Longrightarrow>
     length (filter (\<lambda>e. src e = s \<and> dst e = d \<and> get_weight e = weight) es) \<le> 1"
  using distinct_filter_eq_le1 [of es "make_edge s d weight"]
  by (simp add: make_edge_iff [symmetric])

lemma filter_match_ge1:
  "\<exists>e\<in>set es. P e \<Longrightarrow> 1 \<le> length (filter P es)"
  by (induction es) auto

lemma erase_edge_found:
  "is_node g s \<Longrightarrow> is_node g d \<Longrightarrow>
   \<exists>e\<in>set (g_edges g). src e = s \<and> dst e = d \<and> get_weight e = weight \<Longrightarrow>
   erase_edge g s d weight =
     (Inr True,
      g\<lparr>g_edges := filter (\<lambda>e. \<not> (src e = s \<and> dst e = d \<and> get_weight e = weight)) (g_edges g)\<rparr>)"
  by (simp add: erase_edge_def Let_def remove_if_def edge_matches_iff length_filter_neq)

lemma erase_edge_not_found:
  "is_node g s \<Longrightarrow> is_node g d \<Longrightarrow>
   \<not> (\<exists>e\<in>set (g_edges g). src e = s \<and> dst e = d \<and> get_weight e = weight) \<Longrightarrow>
   erase_edge g s d weight = (Inr False, g)"
  by (simp add: erase_edge_def Let_def remove_if_def edge_matches_iff length_filter_neq)

lemma erase_edge_missing:
  "\<not> is_node g s \<or> \<not> is_node g d \<Longrightarrow>
   erase_edge g s d weight = (Inl (runtime_error erase_edge_msg), g)"
  by (simp add: erase_edge_def)

text \<open>
  C5. \<open>erase_edge(src, dst, weight?)\<close> raises the missing-node error, leaving the
  graph as it is, when \<open>src\<close> or \<open>dst\<close> is not a node. Otherwise, when the edge
  store holds a record with this \<open>src\<close>, this \<open>dst\<close> and this weight (or, with no
  weight given, no weight), it returns true and the edge store keeps, in their order,
  exactly the other records; when it holds none, it returns false and the graph is as
  it was. In an edge store without repeated records at most one record matches, and a
  successful erase removes exactly one record.
\<close>

theorem erase_edge_removes_match:
  "(\<not> is_node g s \<or> \<not> is_node g d \<longrightarrow>
      erase_edge g s d weight =
        (Inl (runtime_error ''Cannot call gdwg::graph<N, E>::erase_edge on src or dst if they don't exist in the graph''), g))
   \<and> (is_node g s \<and> is_node g d
        \<and> (\<exists>e\<in>set (g_edges g). src e = s \<and> dst e = d \<and> get_weight e = weight) \<longrightarrow>
        fst (erase_edge g s d weight) = Inr True
        \<and> g_nodes (snd (erase_edge g s d weight)) = g_nodes g
        \<and> g_edges (snd (erase_edge g s d weight)) =
            filter (\<lambda>e. \<not> (src e = s \<and> dst e = d \<and> get_weight e = weight)) (g_edges g)
        \<and> \<not> (\<exists>e\<in>set (g_edges (snd (erase_edge g s d weight))).
                src e = s \<and> dst e = d \<and> get_weight e = weight))
   \<and> (is_node g s \<and> is_node g d
        \<and> \<not> (\<exists>e\<in>set (g_edges g). src e = s \<and> dst e = d \<and> get_weight e = weight) \<longrightarrow>
        erase_edge g s d weight = (Inr False, g))
   \<and> (distinct (g_edges g) \<longrightarrow>
        length (filter (\<lambda>e. src e = s \<and> dst e = d \<and> get_weight e = weight) (g_edges g)) \<le> 1)
   \<and> (distinct (g_edges g) \<and> is_node g s \<and> is_node g d
        \<and> (\<exists>e\<in>set (g_edges g). src e = s \<and> dst e = d \<and> get_weight e = weight) \<longrightarrow>
        length (g_edges (snd (erase_edge g s d weight))) + 1 = length (g_edges g))"
proof -
  let ?m = "\<lambda>e. src e = s \<and> dst e = d \<and> get_weight e = weight"
  have len: "length (filter (\<lambda>e. \<not> ?m e) (g_edges g)) + length (filter ?m (g_edges g))
      = length (g_edges g)"
    using sum_length_filter_compl [of ?m "g_edges g"] by simp
  have p1: "\<not> is_node g s \<or> \<not> is_node g d \<longrightarrow>
      erase_edge g s d weight =
        (Inl (runtime_error ''Cannot call gdwg::graph<N, E>::erase_edge on src or dst if they don't exist in the graph''), g)"
    using erase_edge_missing [of g s d weight] by (simp add: erase_edge_msg_def)
  have p2: "is_node g s \<and> is_node g d \<and> (\<exists>e\<in>set (g_edges g). ?m e) \<longrightarrow>
        fst (erase_edge g s d weight) = Inr True
        \<and> g_nodes (snd (erase_edge g s d weight)) = g_nodes g
        \<and> g_edges (snd (erase_edge g s d weight)) = filter (\<lambda>e. \<not> ?m e) (g_edges g)
        \<and> \<not> (\<exists>e\<in>set (g_edges (snd (erase_edge g s d weight))). ?m e)"
    by (simp add: erase_edge_found)
  have p3: "is_node g s \<and> is_node g d \<and> \<not> (\<exists>e\<in>set (g_edges g). ?m e) \<longrightarrow>
        erase_edge g s d weight = (Inr False, g)"
    by (simp add: erase_edge_not_found)
  have p4: "distinct (g_edges g) \<longrightarrow> length (filter ?m (g_edges g)) \<le> 1"
    using filter_match_le1 [of "g_edges g" s d weight] by simp
  have p5: "distinct (g_edges g) \<and> is_node g s \<and> is_node g d \<and> (\<exists>e\<in>set (g_edges g). ?m e) \<longrightarrow>
        length (g_edges (snd (erase_edge g s d weight))) + 1 = length (g_edges g)"
  proof (intro impI, elim conjE)
    assume a: "distinct (g_edges g)" "is_node g s" "is_node g d" "\<exists>e\<in>set (g_edges g). ?m e"
    have "length (filter ?m (g_edges g)) = 1"
      using filter_match_le1 [OF a(1), of s d weight] filter_match_ge1 [OF a(4)] by simp
    with len show "length (g_edges (snd (erase_edge g s d weight))) + 1 = length (g_edges g)"
      by (simp add: erase_edge_found [OF a(2) a(3) a(4)])
  qed
  show ?thesis
    apply (intro conjI)
    apply (rule p1)
    apply (rule p2)
    apply (rule p3)
    apply (rule p4)
    apply (rule p5)
    done
qed

theorem erase_edge_removes_match_witness:
  "is_node \<lparr>g_nodes = {|1::int, 2|}, g_edges = [weighted_edge 1 2 (10::int)]\<rparr> 1
   \<and> is_node \<lparr>g_nodes = {|1::int, 2|}, g_edges = [weighted_edge 1 2 (10::int)]\<rparr> 2
   \<and> \<not> is_node \<lparr>g_nodes = {|1::int, 2|}, g_edges = [weighted_edge 1 2 (10::int)]\<rparr> 3
   \<and> distinct [weighted_edge (1::int) 2 (10::int)]
   \<and> erase_edge \<lparr>g_nodes = {|1::int, 2|}, g_edges = [weighted_edge 1 2 (10::int)]\<rparr> 1 2 (Some 10)
       = (Inr True, \<lparr>g_nodes = {|1, 2|}, g_edges = []\<rparr>)
   \<and> length (g_edges (snd (erase_edge
         \<lparr>g_nodes = {|1::int, 2|}, g_edges = [weighted_edge 1 2 (10::int)]\<rparr> 1 2 (Some 10)))) + 1
       = length [weighted_edge (1::int) 2 (10::int)]
   \<and> erase_edge \<lparr>g_nodes = {|1::int, 2|}, g_edges = [weighted_edge 1 2 (10::int)]\<rparr> 1 2 (Some 5)
       = (Inr False, \<lparr>g_nodes = {|1, 2|}, g_edges = [weighted_edge 1 2 10]\<rparr>)
   \<and> erase_edge \<lparr>g_nodes = {|1::int, 2|}, g_edges = [weighted_edge 1 2 (10::int)]\<rparr> 1 3 (Some 5)
       = (Inl (runtime_error ''Cannot call gdwg::graph<N, E>::erase_edge on src or dst if they don't exist in the graph''),
          \<lparr>g_nodes = {|1, 2|}, g_edges = [weighted_edge 1 2 10]\<rparr>)"
proof -
  let ?g1 = "\<lparr>g_nodes = {|1::int, 2|}, g_edges = [weighted_edge 1 2 (10::int)]\<rparr>"
  have nodes: "is_node ?g1 1 \<and> is_node ?g1 2 \<and> \<not> is_node ?g1 3"
    by (simp add: is_node_def)
  have dist: "distinct (g_edges ?g1)"
    by simp
  have there: "\<exists>e\<in>set (g_edges ?g1). src e = 1 \<and> dst e = 2 \<and> get_weight e = Some 10"
    by simp
  have absent: "\<not> (\<exists>e\<in>set (g_edges ?g1). src e = 1 \<and> dst e = 2 \<and> get_weight e = Some 5)"
    by simp
  have one: "length (g_edges (snd (erase_edge ?g1 1 2 (Some 10)))) + 1 = length (g_edges ?g1)"
    using erase_edge_removes_match [of ?g1 1 2 "Some 10"] nodes dist there by blast
  have none: "erase_edge ?g1 1 2 (Some 5) = (Inr False, ?g1)"
    using erase_edge_removes_match [of ?g1 1 2 "Some 5"] nodes absent by blast
  have thrown: "erase_edge ?g1 1 3 (Some 5) =
      (Inl (runtime_error ''Cannot call gdwg::graph<N, E>::erase_edge on src or dst if they don't exist in the graph''), ?g1)"
    using erase_edge_removes_match [of ?g1 1 3 "Some 5"] nodes by blast
  have e1: "erase_edge ?g1 1 2 (Some 10) = (Inr True, \<lparr>g_nodes = {|1, 2|}, g_edges = []\<rparr>)"
    by (simp add: is_node_def erase_edge_def remove_if_def edge_matches_def)
  from nodes dist one none thrown e1 show ?thesis by simp
qed

section \<open>Merging a node into another\<close>

lemma std_unique_remdups_adj:
  "(\<And>a b. pred a b = (a = b)) \<Longrightarrow> std_unique pred xs = remdups_adj xs"
  by (induction pred xs rule: std_unique.induct) auto

lemma std_unique_edge_eq: "std_unique edge_eq xs = remdups_adj xs"
  by (rule std_unique_remdups_adj) (rule edge_eq_iff)

lemma strict_sorted_remdups_adj:
  "sorted_wrt spec_order xs \<Longrightarrow> sorted_wrt edge_compare (remdups_adj xs)"
proof (induction xs rule: remdups_adj.induct)
  case 1
  then show ?case by simp
next
  case (2 x)
  then show ?case by simp
next
  case (3 x y ys)
  show ?case
  proof (cases "x = y")
    case True
    with 3 show ?thesis by simp
  next
    case False
    have xy: "spec_order x y" using 3(3) by simp
    have "\<forall>z\<in>set (y # ys). edge_compare x z"
    proof
      fix z assume z: "z \<in> set (y # ys)"
      then have xz: "spec_order x z" using 3(3) by auto
      have yz: "spec_order y z" using 3(3) z by (auto simp: spec_order_refl)
      have "x \<noteq> z"
      proof
        assume "x = z"
        with yz xy have "x = y" by (auto dest: spec_order_antisym)
        with False show False by simp
      qed
      with xz show "edge_compare x z" by (simp add: edge_compare_iff)
    qed
    moreover have "sorted_wrt edge_compare (remdups_adj (y # ys))"
      using 3(2) [OF False] 3(3) by simp
    ultimately show ?thesis using False by simp
  qed
qed

lemma edge_compare_irrefl: "\<not> edge_compare a a"
  by (simp add: edge_compare_iff)

lemma strict_sorted_distinct: "sorted_wrt edge_compare xs \<Longrightarrow> distinct xs"
  by (induction xs) (auto simp: edge_compare_irrefl)

lemma strict_sorted_sorted: "sorted_wrt edge_compare xs \<Longrightarrow> sorted_wrt spec_order xs"
  by (rule sorted_wrt_mono_rel [of _ edge_compare]) (auto simp: edge_compare_iff)

lemma rewrite_edge_fields:
  "e' = rewrite_edge old_data new_data e \<longleftrightarrow>
     src e' = (if src e = old_data then new_data else src e)
     \<and> dst e' = (if dst e = old_data then new_data else dst e)
     \<and> get_weight e' = get_weight e"
  by (cases e; cases e') (auto simp: rewrite_edge_def Let_def)

lemma merge_replace_node_ok:
  "is_node g old_data \<Longrightarrow> is_node g new_data \<Longrightarrow>
   merge_replace_node g old_data new_data =
     (Inr (),
      g\<lparr>g_edges := remdups_adj (std_sort edge_compare
                        (map (rewrite_edge old_data new_data) (g_edges g))),
        g_nodes := g_nodes g |-| {|old_data|}\<rparr>)"
  by (simp add: merge_replace_node_def std_unique_edge_eq rewrite_edges_map)

lemma merged_edges_strict:
  "sorted_wrt edge_compare (remdups_adj (std_sort edge_compare es))"
  by (rule strict_sorted_remdups_adj) (rule sorted_std_sort)

text \<open>
  C3. \<open>merge_replace_node(old, new)\<close> raises the missing-node error, leaving the
  graph as it is, when \<open>old\<close> or \<open>new\<close> is not a node. Otherwise it does not fail:
  \<open>old\<close> leaves the node store; the records of the new edge store are exactly the old
  records with every endpoint \<open>old\<close> replaced by \<open>new\<close> and the weight kept; the new
  edge store is sorted and holds no record twice. On the graph with nodes 1, 2, 3 and
  edges (1, 2, 10), (1, 3, 15), merging 1 into 2 leaves \<open>is_node(1)\<close> false and
  \<open>is_connected(2, 3)\<close> true, and with the edge (2, 2, 10) present beforehand the
  result holds (2, 2, 10) once.
\<close>

theorem merge_replace_node_merges:
  "(\<not> is_node g old_data \<or> \<not> is_node g new_data \<longrightarrow>
      merge_replace_node g old_data new_data =
        (Inl (runtime_error ''Cannot call gdwg::graph<N, E>::merge_replace_node on old or new data if they don't exist in the graph''), g))
   \<and> (is_node g old_data \<and> is_node g new_data \<longrightarrow>
        fst (merge_replace_node g old_data new_data) = Inr ()
        \<and> g_nodes (snd (merge_replace_node g old_data new_data)) = g_nodes g |-| {|old_data|}
        \<and> \<not> is_node (snd (merge_replace_node g old_data new_data)) old_data
        \<and> (\<forall>e'. e' \<in> set (g_edges (snd (merge_replace_node g old_data new_data))) \<longleftrightarrow>
              (\<exists>e\<in>set (g_edges g).
                 src e' = (if src e = old_data then new_data else src e)
                 \<and> dst e' = (if dst e = old_data then new_data else dst e)
                 \<and> get_weight e' = get_weight e))
        \<and> distinct (g_edges (snd (merge_replace_node g old_data new_data)))
        \<and> edges_sorted (snd (merge_replace_node g old_data new_data)))
   \<and> merge_replace_node
        \<lparr>g_nodes = {|1::int, 2, 3|},
         g_edges = [weighted_edge 1 2 (10::int), weighted_edge 1 3 15]\<rparr> 1 2
       = (Inr (), \<lparr>g_nodes = {|2, 3|}, g_edges = [weighted_edge 2 2 10, weighted_edge 2 3 15]\<rparr>)
   \<and> \<not> is_node \<lparr>g_nodes = {|2::int, 3|},
                  g_edges = [weighted_edge 2 2 (10::int), weighted_edge 2 3 15]\<rparr> 1
   \<and> is_connected \<lparr>g_nodes = {|2::int, 3|},
                    g_edges = [weighted_edge 2 2 (10::int), weighted_edge 2 3 15]\<rparr> 2 3 = Inr True
   \<and> merge_replace_node
        \<lparr>g_nodes = {|1::int, 2, 3|},
         g_edges = [weighted_edge 1 2 (10::int), weighted_edge 1 3 15, weighted_edge 2 2 10]\<rparr> 1 2
       = (Inr (), \<lparr>g_nodes = {|2, 3|}, g_edges = [weighted_edge 2 2 10, weighted_edge 2 3 15]\<rparr>)"
proof -
  let ?r = "merge_replace_node g old_data new_data"
  have p1: "\<not> is_node g old_data \<or> \<not> is_node g new_data \<longrightarrow>
      ?r = (Inl (runtime_error ''Cannot call gdwg::graph<N, E>::merge_replace_node on old or new data if they don't exist in the graph''), g)"
    by (simp add: merge_replace_node_def merge_replace_node_msg_def)
  have p2: "is_node g old_data \<and> is_node g new_data \<longrightarrow>
        fst ?r = Inr ()
        \<and> g_nodes (snd ?r) = g_nodes g |-| {|old_data|}
        \<and> \<not> is_node (snd ?r) old_data
        \<and> (\<forall>e'. e' \<in> set (g_edges (snd ?r)) \<longleftrightarrow>
              (\<exists>e\<in>set (g_edges g).
                 src e' = (if src e = old_data then new_data else src e)
                 \<and> dst e' = (if dst e = old_data then new_data else dst e)
                 \<and> get_weight e' = get_weight e))
        \<and> distinct (g_edges (snd ?r))
        \<and> edges_sorted (snd ?r)"
  proof (intro impI, elim conjE)
    assume a: "is_node g old_data" "is_node g new_data"
    note r = merge_replace_node_ok [OF a]
    have mem: "\<forall>e'. e' \<in> set (g_edges (snd ?r)) \<longleftrightarrow>
              (\<exists>e\<in>set (g_edges g).
                 src e' = (if src e = old_data then new_data else src e)
                 \<and> dst e' = (if dst e = old_data then new_data else dst e)
                 \<and> get_weight e' = get_weight e)"
      unfolding r by (simp add: set_std_sort image_iff rewrite_edge_fields)
    have dist: "distinct (g_edges (snd ?r))"
      unfolding r by (simp add: strict_sorted_distinct [OF merged_edges_strict])
    have srt: "edges_sorted (snd ?r)"
      unfolding r edges_sorted_def
      by (simp add: strict_sorted_sorted [OF merged_edges_strict])
    have rest: "fst ?r = Inr () \<and> g_nodes (snd ?r) = g_nodes g |-| {|old_data|}
        \<and> \<not> is_node (snd ?r) old_data"
      unfolding r by (simp add: is_node_def)
    from rest mem dist srt show "fst ?r = Inr ()
        \<and> g_nodes (snd ?r) = g_nodes g |-| {|old_data|}
        \<and> \<not> is_node (snd ?r) old_data
        \<and> (\<forall>e'. e' \<in> set (g_edges (snd ?r)) \<longleftrightarrow>
              (\<exists>e\<in>set (g_edges g).
                 src e' = (if src e = old_data then new_data else src e)
                 \<and> dst e' = (if dst e = old_data then new_data else dst e)
                 \<and> get_weight e' = get_weight e))
        \<and> distinct (g_edges (snd ?r))
        \<and> edges_sorted (snd ?r)"
      by simp
  qed
  have p3: "merge_replace_node
        \<lparr>g_nodes = {|1::int, 2, 3|},
         g_edges = [weighted_edge 1 2 (10::int), weighted_edge 1 3 15]\<rparr> 1 2
       = (Inr (), \<lparr>g_nodes = {|2, 3|}, g_edges = [weighted_edge 2 2 10, weighted_edge 2 3 15]\<rparr>)"
    by (simp add: merge_replace_node_def is_node_def rewrite_edge_def Let_def edge_compare_def)
  have p4: "\<not> is_node \<lparr>g_nodes = {|2::int, 3|},
                  g_edges = [weighted_edge 2 2 (10::int), weighted_edge 2 3 15]\<rparr> 1"
    by (simp add: is_node_def)
  have p5: "is_connected \<lparr>g_nodes = {|2::int, 3|},
                    g_edges = [weighted_edge 2 2 (10::int), weighted_edge 2 3 15]\<rparr> 2 3 = Inr True"
    by (simp add: is_connected_def is_node_def any_of_def)
  have p6: "merge_replace_node
        \<lparr>g_nodes = {|1::int, 2, 3|},
         g_edges = [weighted_edge 1 2 (10::int), weighted_edge 1 3 15, weighted_edge 2 2 10]\<rparr> 1 2
       = (Inr (), \<lparr>g_nodes = {|2, 3|}, g_edges = [weighted_edge 2 2 10, weighted_edge 2 3 15]\<rparr>)"
    by (simp add: merge_replace_node_def is_node_def rewrite_edge_def Let_def edge_compare_def)
  show ?thesis
    apply (intro conjI)
    apply (rule p1)
    apply (rule p2)
    apply (rule p3)
    apply (rule p4)
    apply (rule p5)
    apply (rule p6)
    done
qed

theorem merge_replace_node_merges_witness:
  "is_node \<lparr>g_nodes = {|1::int, 2, 3|},
            g_edges = [weighted_edge 1 2 (10::int), weighted_edge 1 3 15, weighted_edge 2 2 10]\<rparr> 1
   \<and> is_node \<lparr>g_nodes = {|1::int, 2, 3|},
            g_edges = [weighted_edge 1 2 (10::int), weighted_edge 1 3 15, weighted_edge 2 2 10]\<rparr> 2
   \<and> \<not> is_node \<lparr>g_nodes = {|1::int, 2, 3|},
            g_edges = [weighted_edge 1 2 (10::int), weighted_edge 1 3 15, weighted_edge 2 2 10]\<rparr> 4
   \<and> distinct (g_edges (snd (merge_replace_node
        \<lparr>g_nodes = {|1::int, 2, 3|},
         g_edges = [weighted_edge 1 2 (10::int), weighted_edge 1 3 15, weighted_edge 2 2 10]\<rparr> 1 2)))
   \<and> edges_sorted (snd (merge_replace_node
        \<lparr>g_nodes = {|1::int, 2, 3|},
         g_edges = [weighted_edge 1 2 (10::int), weighted_edge 1 3 15, weighted_edge 2 2 10]\<rparr> 1 2))
   \<and> merge_replace_node
        \<lparr>g_nodes = {|1::int, 2, 3|},
         g_edges = [weighted_edge 1 2 (10::int), weighted_edge 1 3 15, weighted_edge 2 2 10]\<rparr> 1 4
       = (Inl (runtime_error ''Cannot call gdwg::graph<N, E>::merge_replace_node on old or new data if they don't exist in the graph''),
          \<lparr>g_nodes = {|1::int, 2, 3|},
           g_edges = [weighted_edge 1 2 (10::int), weighted_edge 1 3 15, weighted_edge 2 2 10]\<rparr>)"
proof -
  let ?g = "\<lparr>g_nodes = {|1::int, 2, 3|},
            g_edges = [weighted_edge 1 2 (10::int), weighted_edge 1 3 15, weighted_edge 2 2 10]\<rparr>"
  have nodes: "is_node ?g 1 \<and> is_node ?g 2 \<and> \<not> is_node ?g 4"
    by (simp add: is_node_def)
  have ok: "distinct (g_edges (snd (merge_replace_node ?g 1 2)))
      \<and> edges_sorted (snd (merge_replace_node ?g 1 2))"
    using merge_replace_node_merges [of ?g 1 2] nodes by blast
  have thrown: "merge_replace_node ?g 1 4 =
      (Inl (runtime_error ''Cannot call gdwg::graph<N, E>::merge_replace_node on old or new data if they don't exist in the graph''), ?g)"
    using merge_replace_node_merges [of ?g 1 4] nodes by blast
  from nodes ok thrown show ?thesis by blast
qed

section \<open>Missing-node errors\<close>

text \<open>
  C7. Each operation with a node-existence precondition, called with a missing node,
  raises the error with the message documented for it and leaves the graph exactly as
  it was; and whenever a modifier raises, the graph it leaves behind is the graph it
  was called on.
\<close>

theorem missing_node_errors:
  "(\<not> is_node g s \<or> \<not> is_node g d \<longrightarrow>
      insert_edge g s d weight =
        (Inl (runtime_error ''Cannot call gdwg::graph<N, E>::insert_edge when either src or dst node does not exist''), g))
   \<and> (\<not> is_node g s \<longrightarrow>
      replace_node g s d =
        (Inl (runtime_error ''Cannot call gdwg::graph<N, E>::replace_node on a node that doesn't exist''), g))
   \<and> (\<not> is_node g s \<or> \<not> is_node g d \<longrightarrow>
      merge_replace_node g s d =
        (Inl (runtime_error ''Cannot call gdwg::graph<N, E>::merge_replace_node on old or new data if they don't exist in the graph''), g))
   \<and> (\<not> is_node g s \<or> \<not> is_node g d \<longrightarrow>
      is_connected g s d =
        Inl (runtime_error ''Cannot call gdwg::graph<N, E>::is_connected if src or dst node don't exist in the graph''))
   \<and> (\<not> is_node g s \<or> \<not> is_node g d \<longrightarrow>
      erase_edge g s d weight =
        (Inl (runtime_error ''Cannot call gdwg::graph<N, E>::erase_edge on src or dst if they don't exist in the graph''), g))
   \<and> (\<not> is_node g s \<or> \<not> is_node g d \<longrightarrow>
      edges g s d =
        Inl (runtime_error ''Cannot call gdwg::graph<N, E>::edges if src or dst node don't exist in the graph''))
   \<and> (\<not> is_node g s \<longrightarrow>
      connections g s =
        Inl (runtime_error ''Cannot call gdwg::graph<N, E>::connections if src doesn't exist in the graph''))
   \<and> (isl (fst (insert_edge g s d weight)) \<longrightarrow> snd (insert_edge g s d weight) = g)
   \<and> (isl (fst (replace_node g s d)) \<longrightarrow> snd (replace_node g s d) = g)
   \<and> (isl (fst (merge_replace_node g s d)) \<longrightarrow> snd (merge_replace_node g s d) = g)
   \<and> (isl (fst (erase_edge g s d weight)) \<longrightarrow> snd (erase_edge g s d weight) = g)"
proof -
  have 1: "\<not> is_node g s \<or> \<not> is_node g d \<longrightarrow>
      insert_edge g s d weight =
        (Inl (runtime_error ''Cannot call gdwg::graph<N, E>::insert_edge when either src or dst node does not exist''), g)"
    by (simp add: insert_edge_def insert_edge_msg_def)
  have 2: "\<not> is_node g s \<longrightarrow>
      replace_node g s d =
        (Inl (runtime_error ''Cannot call gdwg::graph<N, E>::replace_node on a node that doesn't exist''), g)"
    by (simp add: replace_node_def replace_node_msg_def)
  have 3: "\<not> is_node g s \<or> \<not> is_node g d \<longrightarrow>
      merge_replace_node g s d =
        (Inl (runtime_error ''Cannot call gdwg::graph<N, E>::merge_replace_node on old or new data if they don't exist in the graph''), g)"
    by (simp add: merge_replace_node_def merge_replace_node_msg_def)
  have 4: "\<not> is_node g s \<or> \<not> is_node g d \<longrightarrow>
      is_connected g s d =
        Inl (runtime_error ''Cannot call gdwg::graph<N, E>::is_connected if src or dst node don't exist in the graph'')"
    by (simp add: is_connected_def is_connected_msg_def)
  have 5: "\<not> is_node g s \<or> \<not> is_node g d \<longrightarrow>
      erase_edge g s d weight =
        (Inl (runtime_error ''Cannot call gdwg::graph<N, E>::erase_edge on src or dst if they don't exist in the graph''), g)"
    by (simp add: erase_edge_def erase_edge_msg_def)
  have 6: "\<not> is_node g s \<or> \<not> is_node g d \<longrightarrow>
      edges g s d =
        Inl (runtime_error ''Cannot call gdwg::graph<N, E>::edges if src or dst node don't exist in the graph'')"
    by (simp add: edges_def edges_msg_def)
  have 7: "\<not> is_node g s \<longrightarrow>
      connections g s =
        Inl (runtime_error ''Cannot call gdwg::graph<N, E>::connections if src doesn't exist in the graph'')"
    by (simp add: connections_def connections_msg_def)
  have 8: "isl (fst (insert_edge g s d weight)) \<longrightarrow> snd (insert_edge g s d weight) = g"
    by (simp add: insert_edge_def Let_def)
  have 9: "isl (fst (replace_node g s d)) \<longrightarrow> snd (replace_node g s d) = g"
    by (simp add: replace_node_def)
  have 10: "isl (fst (merge_replace_node g s d)) \<longrightarrow> snd (merge_replace_node g s d) = g"
    by (simp add: merge_replace_node_def)
  have 11: "isl (fst (erase_edge g s d weight)) \<longrightarrow> snd (erase_edge g s d weight) = g"
    by (simp add: erase_edge_def Let_def)
  show ?thesis
    apply (intro conjI)
    apply (rule 1)
    apply (rule 2)
    apply (rule 3)
    apply (rule 4)
    apply (rule 5)
    apply (rule 6)
    apply (rule 7)
    apply (rule 8)
    apply (rule 9)
    apply (rule 10)
    apply (rule 11)
    done
qed

theorem missing_node_errors_witness:
  "\<not> is_node \<lparr>g_nodes = {|1::int, 2|}, g_edges = [weighted_edge 1 2 (10::int)]\<rparr> 3
   \<and> insert_edge \<lparr>g_nodes = {|1::int, 2|}, g_edges = [weighted_edge 1 2 (10::int)]\<rparr> 3 1 (Some 5)
       = (Inl (runtime_error ''Cannot call gdwg::graph<N, E>::insert_edge when either src or dst node does not exist''),
          \<lparr>g_nodes = {|1::int, 2|}, g_edges = [weighted_edge 1 2 (10::int)]\<rparr>)
   \<and> replace_node \<lparr>g_nodes = {|1::int, 2|}, g_edges = [weighted_edge 1 2 (10::int)]\<rparr> 3 1
       = (Inl (runtime_error ''Cannot call gdwg::graph<N, E>::replace_node on a node that doesn't exist''),
          \<lparr>g_nodes = {|1::int, 2|}, g_edges = [weighted_edge 1 2 (10::int)]\<rparr>)
   \<and> merge_replace_node \<lparr>g_nodes = {|1::int, 2|}, g_edges = [weighted_edge 1 2 (10::int)]\<rparr> 3 1
       = (Inl (runtime_error ''Cannot call gdwg::graph<N, E>::merge_replace_node on old or new data if they don't exist in the graph''),
          \<lparr>g_nodes = {|1::int, 2|}, g_edges = [weighted_edge 1 2 (10::int)]\<rparr>)
   \<and> is_connected \<lparr>g_nodes = {|1::int, 2|}, g_edges = [weighted_edge 1 2 (10::int)]\<rparr> 3 1
       = Inl (runtime_error ''Cannot call gdwg::graph<N, E>::is_connected if src or dst node don't exist in the graph'')
   \<and> erase_edge \<lparr>g_nodes = {|1::int, 2|}, g_edges = [weighted_edge 1 2 (10::int)]\<rparr> 3 1 (Some 5)
       = (Inl (runtime_error ''Cannot call gdwg::graph<N, E>::erase_edge on src or dst if they don't exist in the graph''),
          \<lparr>g_nodes = {|1::int, 2|}, g_edges = [weighted_edge 1 2 (10::int)]\<rparr>)
   \<and> edges \<lparr>g_nodes = {|1::int, 2|}, g_edges = [weighted_edge 1 2 (10::int)]\<rparr> 3 1
       = Inl (runtime_error ''Cannot call gdwg::graph<N, E>::edges if src or dst node don't exist in the graph'')
   \<and> connections \<lparr>g_nodes = {|1::int, 2|}, g_edges = [weighted_edge 1 2 (10::int)]\<rparr> 3
       = Inl (runtime_error ''Cannot call gdwg::graph<N, E>::connections if src doesn't exist in the graph'')
   \<and> isl (fst (insert_edge
         \<lparr>g_nodes = {|1::int, 2|}, g_edges = [weighted_edge 1 2 (10::int)]\<rparr> 3 1 (Some 5)))
   \<and> isl (fst (replace_node
         \<lparr>g_nodes = {|1::int, 2|}, g_edges = [weighted_edge 1 2 (10::int)]\<rparr> 3 1))
   \<and> isl (fst (merge_replace_node
         \<lparr>g_nodes = {|1::int, 2|}, g_edges = [weighted_edge 1 2 (10::int)]\<rparr> 3 1))
   \<and> isl (fst (erase_edge
         \<lparr>g_nodes = {|1::int, 2|}, g_edges = [weighted_edge 1 2 (10::int)]\<rparr> 3 1 (Some 5)))"
proof -
  let ?g = "\<lparr>g_nodes = {|1::int, 2|}, g_edges = [weighted_edge 1 2 (10::int)]\<rparr>"
  have absent: "\<not> is_node ?g 3"
    by (simp add: is_node_def)
  have raised: "isl (fst (insert_edge ?g 3 1 (Some 5))) \<and> isl (fst (replace_node ?g 3 1))
      \<and> isl (fst (merge_replace_node ?g 3 1)) \<and> isl (fst (erase_edge ?g 3 1 (Some 5)))"
    by (simp add: insert_edge_def replace_node_def merge_replace_node_def erase_edge_def
        is_node_def)
  from missing_node_errors [of ?g 3 1 "Some 5"] absent raised show ?thesis
    by blast
qed

section \<open>Equality of graphs\<close>

lemma split_edges_lists:
  "split_edges es (us, ws) = (us @ unweighted_pairs es, ws @ weighted_triples es)"
  by (induction es "(us, ws)" arbitrary: us ws rule: split_edges.induct) auto

lemma length_partition:
  "length (unweighted_pairs es) + length (weighted_triples es) = length es"
  by (induction es rule: unweighted_pairs.induct) auto

lemma graph_eq_spec_equal: "graph_eq g h \<longleftrightarrow> spec_equal g h"
proof -
  have "spec_equal g h \<Longrightarrow> length (g_edges g) = length (g_edges h)"
    using length_partition [of "g_edges g"] length_partition [of "g_edges h"]
    by (simp add: spec_equal_def)
  then show ?thesis
    by (auto simp: graph_eq_def spec_equal_def split_edges_lists fset_inject)
qed

lemma graph_eq_refl: "graph_eq g g"
  by (simp add: graph_eq_spec_equal spec_equal_def)

lemma graph_eq_length: "graph_eq g h \<Longrightarrow> length (g_edges g) = length (g_edges h)"
  by (simp add: graph_eq_def split: if_splits)

lemma strict_sorted_iff:
  "sorted_wrt edge_compare xs \<longleftrightarrow> sorted_wrt spec_order xs \<and> distinct xs"
proof
  assume "sorted_wrt edge_compare xs"
  then show "sorted_wrt spec_order xs \<and> distinct xs"
    by (simp add: strict_sorted_sorted strict_sorted_distinct)
next
  assume "sorted_wrt spec_order xs \<and> distinct xs"
  then show "sorted_wrt edge_compare xs"
    by (induction xs) (auto simp: edge_compare_iff)
qed

lemma strict_sorted_set_unique:
  assumes "sorted_wrt edge_compare xs" "sorted_wrt edge_compare ys" "set xs = set ys"
  shows "xs = ys"
proof -
  have "mset xs = mset ys"
    using assms by (simp add: strict_sorted_iff set_eq_iff_mset_eq_distinct)
  with assms show ?thesis
    by (simp add: strict_sorted_iff sorted_spec_order_unique)
qed

lemma distinct_std_sort: "distinct (std_sort cmp xs) = distinct xs"
  by (rule mset_eq_imp_distinct_iff) (rule mset_std_sort)

lemma insert_edge_new:
  "fst (insert_edge g s d weight) = Inr True \<Longrightarrow>
     snd (insert_edge g s d weight) =
       g\<lparr>g_edges := std_sort edge_compare (g_edges g @ [make_edge s d weight])\<rparr>
     \<and> make_edge s d weight \<notin> set (g_edges g)"
  by (auto simp: insert_edge_def Let_def find_if_end edge_eq_iff split: if_splits)

lemma insert_edge_old:
  "fst (insert_edge g s d weight) = Inr False \<Longrightarrow>
     snd (insert_edge g s d weight) = g \<and> make_edge s d weight \<in> set (g_edges g)"
  by (auto simp: insert_edge_def Let_def find_if_end edge_eq_iff split: if_splits)

lemma insert_edge_step:
  assumes "fst (insert_edge g s d weight) = Inr b" "sorted_wrt edge_compare (g_edges g)"
  shows "g_nodes (snd (insert_edge g s d weight)) = g_nodes g
    \<and> set (g_edges (snd (insert_edge g s d weight))) = insert (make_edge s d weight) (set (g_edges g))
    \<and> sorted_wrt edge_compare (g_edges (snd (insert_edge g s d weight)))"
proof (cases b)
  case True
  with assms(1) have "fst (insert_edge g s d weight) = Inr True" by simp
  note n = insert_edge_new [OF this]
  have "distinct (std_sort edge_compare (g_edges g @ [make_edge s d weight]))"
    using n assms(2) by (simp add: distinct_std_sort strict_sorted_distinct)
  then show ?thesis
    using n by (simp add: strict_sorted_iff sorted_std_sort set_std_sort)
next
  case False
  with assms(1) have "fst (insert_edge g s d weight) = Inr False" by simp
  note n = insert_edge_old [OF this]
  then show ?thesis using assms(2) by (auto simp: insert_absorb)
qed

lemma build_result:
  "build steps g = Inr g' \<Longrightarrow> sorted_wrt edge_compare (g_edges g) \<Longrightarrow>
     fset (g_nodes g') = fset (g_nodes g) \<union> {v. Insert_node v \<in> set steps}
     \<and> set (g_edges g') =
         set (g_edges g) \<union> {make_edge s d weight | s d weight. Insert_edge s d weight \<in> set steps}
     \<and> sorted_wrt edge_compare (g_edges g')"
proof (induction steps g rule: build.induct)
  case (1 g)
  then show ?case by simp
next
  case (2 v steps g)
  from 2 show ?case by (auto simp: insert_node_def)
next
  case (3 s d weight steps g)
  from 3(2) obtain b where b: "fst (insert_edge g s d weight) = Inr b"
    by (cases "fst (insert_edge g s d weight)") auto
  note st = insert_edge_step [OF b 3(3)]
  from 3(2) b have run: "build steps (snd (insert_edge g s d weight)) = Inr g'"
    by simp
  from 3(1) [OF b run] st show ?case by auto
qed

lemma build_same_steps:
  assumes "build steps1 graph_default = Inr g1" "build steps2 graph_default = Inr g2"
    "set steps1 = set steps2"
  shows "g1 = g2"
proof -
  have e: "sorted_wrt edge_compare (g_edges (graph_default :: ('a, 'b) graph))"
    by (simp add: graph_default_def)
  note r1 = build_result [OF assms(1) e]
  note r2 = build_result [OF assms(2) e]
  have "g_nodes g1 = g_nodes g2"
    using r1 r2 assms(3) by (simp add: fset_inject [symmetric])
  moreover have "g_edges g1 = g_edges g2"
    using r1 r2 assms(3) by (intro strict_sorted_set_unique) auto
  ultimately show ?thesis by simp
qed

lemma extra_edge_breaks:
  assumes "graph_eq g h" "fst (insert_edge h s d weight) = Inr True"
  shows "\<not> graph_eq g (snd (insert_edge h s d weight))
    \<and> \<not> graph_eq (snd (insert_edge h s d weight)) g"
proof -
  have "length (g_edges (snd (insert_edge h s d weight))) = Suc (length (g_edges h))"
    using insert_edge_new [OF assms(2)] mset_std_sort [of edge_compare "g_edges h @ [make_edge s d weight]"]
    by (metis graph.select_convs(2) graph.surjective graph.update_convs(2) length_append_singleton
        size_mset)
  with graph_eq_length [OF assms(1)] show ?thesis
    by (auto dest: graph_eq_length)
qed

lemma graph_eq_sym: "graph_eq g h \<Longrightarrow> graph_eq h g"
  by (auto simp: graph_eq_spec_equal spec_equal_def)

text \<open>
  C8. Two graphs compare equal exactly when their node stores hold the same values and
  their lists of unweighted (src, dst) pairs and of weighted (src, dst, weight) triples,
  each in storage order, are equal. Two graphs built from the empty graph by the same
  \<open>insert_node\<close> and \<open>insert_edge\<close> calls in different orders, none of which
  throws, compare equal. When two graphs compare equal and an \<open>insert_edge\<close> on one of
  them adds an edge, the two no longer compare equal.
\<close>

theorem graph_eq_characterised:
  "(graph_eq gA gB \<longleftrightarrow>
      fset (g_nodes gA) = fset (g_nodes gB)
      \<and> unweighted_pairs (g_edges gA) = unweighted_pairs (g_edges gB)
      \<and> weighted_triples (g_edges gA) = weighted_triples (g_edges gB))
   \<and> (graph_eq gA gB \<longleftrightarrow> spec_equal gA gB)
   \<and> (build steps1 graph_default = Inr g1 \<and> build steps2 graph_default = Inr g2
        \<and> mset steps1 = mset steps2 \<longrightarrow> graph_eq g1 g2)
   \<and> (graph_eq gA gB \<and> fst (insert_edge gB s d weight) = Inr True \<longrightarrow>
        \<not> graph_eq gA (snd (insert_edge gB s d weight))
        \<and> \<not> graph_eq (snd (insert_edge gB s d weight)) gA)
   \<and> (graph_eq gA gB \<and> fst (insert_edge gA s d weight) = Inr True \<longrightarrow>
        \<not> graph_eq (snd (insert_edge gA s d weight)) gB
        \<and> \<not> graph_eq gB (snd (insert_edge gA s d weight)))"
proof -
  have 1: "graph_eq gA gB \<longleftrightarrow>
      fset (g_nodes gA) = fset (g_nodes gB)
      \<and> unweighted_pairs (g_edges gA) = unweighted_pairs (g_edges gB)
      \<and> weighted_triples (g_edges gA) = weighted_triples (g_edges gB)"
    by (simp add: graph_eq_spec_equal spec_equal_def)
  have 2: "graph_eq gA gB \<longleftrightarrow> spec_equal gA gB"
    by (rule graph_eq_spec_equal)
  have 3: "build steps1 graph_default = Inr g1 \<and> build steps2 graph_default = Inr g2
        \<and> mset steps1 = mset steps2 \<longrightarrow> graph_eq g1 g2"
  proof (intro impI, elim conjE)
    assume a: "build steps1 graph_default = Inr g1" "build steps2 graph_default = Inr g2"
      "mset steps1 = mset steps2"
    from a(3) have "set steps1 = set steps2" by (rule mset_eq_setD)
    with a have "g1 = g2" by (intro build_same_steps)
    then show "graph_eq g1 g2" by (simp add: graph_eq_refl)
  qed
  have 4: "graph_eq gA gB \<and> fst (insert_edge gB s d weight) = Inr True \<longrightarrow>
        \<not> graph_eq gA (snd (insert_edge gB s d weight))
        \<and> \<not> graph_eq (snd (insert_edge gB s d weight)) gA"
    using extra_edge_breaks [of gA gB s d weight] by blast
  have 5: "graph_eq gA gB \<and> fst (insert_edge gA s d weight) = Inr True \<longrightarrow>
        \<not> graph_eq (snd (insert_edge gA s d weight)) gB
        \<and> \<not> graph_eq gB (snd (insert_edge gA s d weight))"
    using extra_edge_breaks [of gB gA s d weight] graph_eq_sym [of gA gB] by blast
  show ?thesis
    apply (intro conjI)
    apply (rule 1)
    apply (rule 2)
    apply (rule 3)
    apply (rule 4)
    apply (rule 5)
    done
qed

theorem graph_eq_characterised_witness:
  "build [Insert_node (1::int), Insert_node 2, Insert_edge 1 2 (Some (10::int)),
          Insert_edge 2 1 (Some 5), Insert_edge 1 2 None] graph_default
     = Inr \<lparr>g_nodes = {|1, 2|},
            g_edges = [unweighted_edge 1 2, weighted_edge 1 2 10, weighted_edge 2 1 5]\<rparr>
   \<and> build [Insert_node (2::int), Insert_edge 2 2 None, Insert_node 1] graph_default
     = Inr \<lparr>g_nodes = {|1, 2|}, g_edges = [unweighted_edge 2 (2::int) :: (int, int) edge]\<rparr>
   \<and> build [Insert_node (2::int), Insert_node 1, Insert_edge 1 2 None,
          Insert_edge 2 1 (Some 5), Insert_edge 1 2 (Some (10::int))] graph_default
     = Inr \<lparr>g_nodes = {|1, 2|},
            g_edges = [unweighted_edge 1 2, weighted_edge 1 2 10, weighted_edge 2 1 5]\<rparr>
   \<and> mset [Insert_node (1::int), Insert_node 2, Insert_edge 1 2 (Some (10::int)),
          Insert_edge 2 1 (Some 5), Insert_edge 1 2 None]
     = mset [Insert_node (2::int), Insert_node 1, Insert_edge 1 2 None,
          Insert_edge 2 1 (Some 5), Insert_edge 1 2 (Some (10::int))]
   \<and> graph_eq \<lparr>g_nodes = {|1::int, 2|}, g_edges = [weighted_edge 1 2 (10::int)]\<rparr>
              \<lparr>g_nodes = {|2::int, 1|}, g_edges = [weighted_edge 1 2 (10::int)]\<rparr>
   \<and> fst (insert_edge \<lparr>g_nodes = {|2::int, 1|}, g_edges = [weighted_edge 1 2 (10::int)]\<rparr>
              2 1 (Some 5)) = Inr True
   \<and> \<not> graph_eq \<lparr>g_nodes = {|1::int, 2|}, g_edges = [weighted_edge 1 2 (10::int)]\<rparr>
        (snd (insert_edge \<lparr>g_nodes = {|2::int, 1|}, g_edges = [weighted_edge 1 2 (10::int)]\<rparr>
              2 1 (Some 5)))
   \<and> \<not> graph_eq \<lparr>g_nodes = {|1::int, 2|}, g_edges = [weighted_edge 1 2 (10::int)]\<rparr>
        \<lparr>g_nodes = {|1::int, 2|}, g_edges = [weighted_edge 1 2 (11::int)]\<rparr>"
proof -
  let ?s1 = "[Insert_node (1::int), Insert_node 2, Insert_edge 1 2 (Some (10::int)),
          Insert_edge 2 1 (Some 5), Insert_edge 1 2 None]"
  let ?s2 = "[Insert_node (2::int), Insert_node 1, Insert_edge 1 2 None,
          Insert_edge 2 1 (Some 5), Insert_edge 1 2 (Some (10::int))]"
  let ?g = "\<lparr>g_nodes = {|1::int, 2|},
            g_edges = [unweighted_edge 1 2, weighted_edge 1 2 (10::int), weighted_edge 2 1 5]\<rparr>"
  let ?a = "\<lparr>g_nodes = {|1::int, 2|}, g_edges = [weighted_edge 1 2 (10::int)]\<rparr>"
  let ?b = "\<lparr>g_nodes = {|2::int, 1|}, g_edges = [weighted_edge 1 2 (10::int)]\<rparr>"
  have b1: "build ?s1 graph_default = Inr ?g"
    by (auto simp: graph_default_def insert_node_def insert_edge_def is_node_def make_edge_def
        edge_compare_def)
  have b2: "build ?s2 graph_default = Inr ?g"
    by (auto simp: graph_default_def insert_node_def insert_edge_def is_node_def make_edge_def
        edge_compare_def)
  have b3: "build [Insert_node (2::int), Insert_edge 2 2 None, Insert_node 1] graph_default
     = Inr \<lparr>g_nodes = {|1, 2|}, g_edges = [unweighted_edge 2 (2::int) :: (int, int) edge]\<rparr>"
    by (auto simp: graph_default_def insert_node_def insert_edge_def is_node_def make_edge_def
        edge_compare_def)
  have m: "mset ?s1 = mset ?s2"
    by (simp add: add_mset_commute)
  have eq: "graph_eq ?a ?b"
    by (auto simp: graph_eq_def)
  have ins: "fst (insert_edge ?b 2 1 (Some 5)) = Inr True"
    by (simp add: insert_edge_def is_node_def make_edge_def Let_def)
  have broken: "\<not> graph_eq ?a (snd (insert_edge ?b 2 1 (Some 5)))"
    using graph_eq_characterised [of ?a ?b ?s1 ?g ?s2 ?g 2 1 "Some 5"] eq ins by blast
  have same: "graph_eq ?g ?g"
    using graph_eq_characterised [of ?a ?b ?s1 ?g ?s2 ?g 2 1 "Some 5"] b1 b2 m by blast
  have w: "\<not> graph_eq ?a \<lparr>g_nodes = {|1::int, 2|}, g_edges = [weighted_edge 1 2 (11::int)]\<rparr>"
    by (simp add: graph_eq_def)
  from b1 b2 b3 m eq ins broken w show ?thesis by blast
qed

section \<open>The text rendering\<close>

lemma collect_lines_filter:
  "collect_lines shn she node es (us, ws) =
     (us @ map (\<lambda>e. ''  '' @ print_edge shn she e @ ''\<newline>'')
             (filter (\<lambda>e. src e = node \<and> \<not> is_weighted e) es),
      ws @ map (\<lambda>e. ''  '' @ print_edge shn she e @ ''\<newline>'')
             (filter (\<lambda>e. src e = node \<and> is_weighted e) es))"
  by (induction es arbitrary: us ws) auto

lemma write_all_concat: "write_all ls os = os @ concat ls"
  by (induction ls arbitrary: os) auto

lemma write_node_block:
  "write_node shn she g node os =
     os @ shn node @ '' (\<newline>''
     @ concat (map (\<lambda>e. ''  '' @ print_edge shn she e @ ''\<newline>'')
                (filter (\<lambda>e. src e = node \<and> \<not> is_weighted e) (g_edges g)))
     @ concat (map (\<lambda>e. ''  '' @ print_edge shn she e @ ''\<newline>'')
                (filter (\<lambda>e. src e = node \<and> is_weighted e) (g_edges g)))
     @ '')\<newline>''"
  by (simp add: write_node_def collect_lines_filter write_all_concat)

lemma write_nodes_concat:
  "write_nodes shn she g ns os = os @ concat (map (\<lambda>n. write_node shn she g n []) ns)"
proof (induction ns arbitrary: os)
  case Nil
  then show ?case by simp
next
  case (Cons n ns)
  have "write_node shn she g n os = os @ write_node shn she g n []"
    by (simp add: write_node_block)
  with Cons show ?case by simp
qed

lemma weighted_out_order:
  "sorted_wrt spec_order es \<Longrightarrow>
     sorted_wrt (\<lambda>a b. dst a < dst b \<or> (dst a = dst b \<and> weight_before (get_weight a) (get_weight b)))
       (filter (\<lambda>e. src e = node \<and> is_weighted e) es)"
  by (induction es) (auto simp: spec_order_def)

text \<open>
  C9, as the code has it. The text starts with a newline; then, for each node in
  ascending order, comes the node label followed by \<open>" ("\<close> and a newline, one line
  per unweighted edge leaving the node, one line per weighted edge leaving the node, and
  \<open>")"\<close> with a newline. Within each group the lines follow the order of the edge
  store; for a sorted edge store the weighted lines of a node are therefore ascending by
  destination and, for equal destinations, by weight. Every line is two spaces, the
  record's rendering and a newline; a node without outgoing edges gives the block of
  its label, \<open>" ("\<close>, newline, \<open>")"\<close>, newline.
\<close>

theorem operator_out_blocks:
  "operator_out shn she g =
     ''\<newline>'' @ concat (map (\<lambda>node.
        shn node @ '' (\<newline>''
        @ concat (map (\<lambda>e. ''  '' @ print_edge shn she e @ ''\<newline>'')
                   (filter (\<lambda>e. src e = node \<and> \<not> is_weighted e) (g_edges g)))
        @ concat (map (\<lambda>e. ''  '' @ print_edge shn she e @ ''\<newline>'')
                   (filter (\<lambda>e. src e = node \<and> is_weighted e) (g_edges g)))
        @ '')\<newline>'') (nodes g))
   \<and> sorted (nodes g) \<and> distinct (nodes g) \<and> set (nodes g) = fset (g_nodes g)
   \<and> (edges_sorted g \<longrightarrow>
        sorted_wrt (\<lambda>a b. dst a < dst b
                      \<or> (dst a = dst b \<and> weight_before (get_weight a) (get_weight b)))
          (filter (\<lambda>e. src e = node \<and> is_weighted e) (g_edges g)))
   \<and> ((\<forall>e\<in>set (g_edges g). src e \<noteq> node) \<longrightarrow>
        write_node shn she g node [] = shn node @ '' (\<newline>)\<newline>'')
   \<and> print_edge shn she (unweighted_edge s d) = shn s @ '' -> '' @ shn d @ '' | U''
   \<and> print_edge shn she (weighted_edge s d w) = shn s @ '' -> '' @ shn d @ '' | W | '' @ she w"
proof -
  have 1: "operator_out shn she g =
     ''\<newline>'' @ concat (map (\<lambda>node.
        shn node @ '' (\<newline>''
        @ concat (map (\<lambda>e. ''  '' @ print_edge shn she e @ ''\<newline>'')
                   (filter (\<lambda>e. src e = node \<and> \<not> is_weighted e) (g_edges g)))
        @ concat (map (\<lambda>e. ''  '' @ print_edge shn she e @ ''\<newline>'')
                   (filter (\<lambda>e. src e = node \<and> is_weighted e) (g_edges g)))
        @ '')\<newline>'') (nodes g))"
    by (simp add: operator_out_def nodes_def write_nodes_concat write_node_block)
  have 2: "sorted (nodes g) \<and> distinct (nodes g) \<and> set (nodes g) = fset (g_nodes g)"
    by (simp add: nodes_def sorted_list_of_fset.rep_eq)
  have 3: "edges_sorted g \<longrightarrow>
        sorted_wrt (\<lambda>a b. dst a < dst b
                      \<or> (dst a = dst b \<and> weight_before (get_weight a) (get_weight b)))
          (filter (\<lambda>e. src e = node \<and> is_weighted e) (g_edges g))"
    by (simp add: edges_sorted_def weighted_out_order)
  have 4: "(\<forall>e\<in>set (g_edges g). src e \<noteq> node) \<longrightarrow>
        write_node shn she g node [] = shn node @ '' (\<newline>)\<newline>''"
    by (simp add: write_node_block filter_empty_conv)
  have 5: "print_edge shn she (unweighted_edge s d) = shn s @ '' -> '' @ shn d @ '' | U''"
    by simp
  have 6: "print_edge shn she (weighted_edge s d w) = shn s @ '' -> '' @ shn d @ '' | W | '' @ she w"
    by simp
  from 1 2 3 4 5 6 show ?thesis by (intro conjI) simp_all
qed

lemma test_fixture_built:
  "build
    [Insert_node 4, Insert_node 1, Insert_edge 4 1 (Some (- 4)),
     Insert_node 3, Insert_node 2, Insert_edge 3 2 (Some 2),
     Insert_node 2, Insert_node 4, Insert_edge 2 4 None,
     Insert_node 2, Insert_node 4, Insert_edge 2 4 (Some 2),
     Insert_node 2, Insert_node 1, Insert_edge 2 1 (Some 1),
     Insert_node 4, Insert_node 1, Insert_edge 4 1 None,
     Insert_node 6, Insert_node 2, Insert_edge 6 2 (Some 5),
     Insert_node 6, Insert_node 3, Insert_edge 6 3 (Some 10),
     Insert_node 1, Insert_node 5, Insert_edge 1 5 (Some (- 1)),
     Insert_node 3, Insert_node 6, Insert_edge 3 6 (Some (- 8)),
     Insert_node 4, Insert_node 5, Insert_edge 4 5 (Some 3),
     Insert_node 5, Insert_node 2, Insert_edge 5 2 None,
     Insert_node 64] graph_default
   = Inr \<lparr>g_nodes = {|1::int, 2, 3, 4, 5, 6, 64|},
          g_edges =
            [weighted_edge 1 5 (- 1 :: int), weighted_edge 2 1 1, unweighted_edge 2 4,
             weighted_edge 2 4 2, weighted_edge 3 2 2, weighted_edge 3 6 (- 8),
             unweighted_edge 4 1, weighted_edge 4 1 (- 4), weighted_edge 4 5 3,
             unweighted_edge 5 2, weighted_edge 6 2 5, weighted_edge 6 3 10]\<rparr>"
  by code_simp

lemma test_fixture_output:
  "operator_out show_int show_int
     \<lparr>g_nodes = {|1::int, 2, 3, 4, 5, 6, 64|},
      g_edges =
        [weighted_edge 1 5 (- 1 :: int), weighted_edge 2 1 1, unweighted_edge 2 4,
         weighted_edge 2 4 2, weighted_edge 3 2 2, weighted_edge 3 6 (- 8),
         unweighted_edge 4 1, weighted_edge 4 1 (- 4), weighted_edge 4 5 3,
         unweighted_edge 5 2, weighted_edge 6 2 5, weighted_edge 6 3 10]\<rparr>
   = ''\<newline>1 (\<newline>  1 -> 5 | W | -1\<newline>)\<newline>2 (\<newline>  2 -> 4 | U\<newline>  2 -> 1 | W | 1\<newline>  2 -> 4 | W | 2\<newline>)\<newline>3 (\<newline>  3 -> 2 | W | 2\<newline>  3 -> 6 | W | -8\<newline>)\<newline>4 (\<newline>  4 -> 1 | U\<newline>  4 -> 1 | W | -4\<newline>  4 -> 5 | W | 3\<newline>)\<newline>5 (\<newline>  5 -> 2 | U\<newline>)\<newline>6 (\<newline>  6 -> 2 | W | 5\<newline>  6 -> 3 | W | 10\<newline>)\<newline>64 (\<newline>)\<newline>''"
  by code_simp

theorem operator_out_blocks_witness:
  "edges_sorted
     \<lparr>g_nodes = {|1::int, 2, 3, 4, 5, 6, 64|},
      g_edges =
        [weighted_edge 1 5 (- 1 :: int), weighted_edge 2 1 1, unweighted_edge 2 4,
         weighted_edge 2 4 2, weighted_edge 3 2 2, weighted_edge 3 6 (- 8),
         unweighted_edge 4 1, weighted_edge 4 1 (- 4), weighted_edge 4 5 3,
         unweighted_edge 5 2, weighted_edge 6 2 5, weighted_edge 6 3 10]\<rparr>
   \<and> operator_out show_int show_int
     \<lparr>g_nodes = {|1::int, 2, 3, 4, 5, 6, 64|},
      g_edges =
        [weighted_edge 1 5 (- 1 :: int), weighted_edge 2 1 1, unweighted_edge 2 4,
         weighted_edge 2 4 2, weighted_edge 3 2 2, weighted_edge 3 6 (- 8),
         unweighted_edge 4 1, weighted_edge 4 1 (- 4), weighted_edge 4 5 3,
         unweighted_edge 5 2, weighted_edge 6 2 5, weighted_edge 6 3 10]\<rparr>
     = ''\<newline>1 (\<newline>  1 -> 5 | W | -1\<newline>)\<newline>2 (\<newline>  2 -> 4 | U\<newline>  2 -> 1 | W | 1\<newline>  2 -> 4 | W | 2\<newline>)\<newline>3 (\<newline>  3 -> 2 | W | 2\<newline>  3 -> 6 | W | -8\<newline>)\<newline>4 (\<newline>  4 -> 1 | U\<newline>  4 -> 1 | W | -4\<newline>  4 -> 5 | W | 3\<newline>)\<newline>5 (\<newline>  5 -> 2 | U\<newline>)\<newline>6 (\<newline>  6 -> 2 | W | 5\<newline>  6 -> 3 | W | 10\<newline>)\<newline>64 (\<newline>)\<newline>''
   \<and> sorted_wrt (\<lambda>a b. dst a < dst b
                   \<or> (dst a = dst b \<and> weight_before (get_weight a) (get_weight b)))
       [weighted_edge (3::int) 2 (2::int), weighted_edge 3 6 (- 8)]
   \<and> write_node show_int show_int
     \<lparr>g_nodes = {|1::int, 2, 3, 4, 5, 6, 64|},
      g_edges =
        [weighted_edge 1 5 (- 1 :: int), weighted_edge 2 1 1, unweighted_edge 2 4,
         weighted_edge 2 4 2, weighted_edge 3 2 2, weighted_edge 3 6 (- 8),
         unweighted_edge 4 1, weighted_edge 4 1 (- 4), weighted_edge 4 5 3,
         unweighted_edge 5 2, weighted_edge 6 2 5, weighted_edge 6 3 10]\<rparr> 64 []
     = ''64 (\<newline>)\<newline>''"
proof -
  let ?g = "\<lparr>g_nodes = {|1::int, 2, 3, 4, 5, 6, 64|},
      g_edges =
        [weighted_edge 1 5 (- 1 :: int), weighted_edge 2 1 1, unweighted_edge 2 4,
         weighted_edge 2 4 2, weighted_edge 3 2 2, weighted_edge 3 6 (- 8),
         unweighted_edge 4 1, weighted_edge 4 1 (- 4), weighted_edge 4 5 3,
         unweighted_edge 5 2, weighted_edge 6 2 5, weighted_edge 6 3 10]\<rparr>"
  have srt: "edges_sorted ?g"
    by code_simp
  have out: "operator_out show_int show_int ?g
     = ''\<newline>1 (\<newline>  1 -> 5 | W | -1\<newline>)\<newline>2 (\<newline>  2 -> 4 | U\<newline>  2 -> 1 | W | 1\<newline>  2 -> 4 | W | 2\<newline>)\<newline>3 (\<newline>  3 -> 2 | W | 2\<newline>  3 -> 6 | W | -8\<newline>)\<newline>4 (\<newline>  4 -> 1 | U\<newline>  4 -> 1 | W | -4\<newline>  4 -> 5 | W | 3\<newline>)\<newline>5 (\<newline>  5 -> 2 | U\<newline>)\<newline>6 (\<newline>  6 -> 2 | W | 5\<newline>  6 -> 3 | W | 10\<newline>)\<newline>64 (\<newline>)\<newline>''"
    by (rule test_fixture_output)
  have none: "\<forall>e\<in>set (g_edges ?g). src e \<noteq> 64"
    by simp
  have f3: "filter (\<lambda>e. src e = 3 \<and> is_weighted e) (g_edges ?g)
      = [weighted_edge 3 2 2, weighted_edge 3 6 (- 8)]"
    by simp
  have w3: "sorted_wrt (\<lambda>a b. dst a < dst b
                   \<or> (dst a = dst b \<and> weight_before (get_weight a) (get_weight b)))
       [weighted_edge (3::int) 2 (2::int), weighted_edge 3 6 (- 8)]"
    using operator_out_blocks [of show_int show_int ?g 3] srt unfolding f3 by blast
  have b64: "write_node show_int show_int ?g 64 [] = show_int 64 @ '' (\<newline>)\<newline>''"
    using operator_out_blocks [of show_int show_int ?g 64] none by blast
  have "show_int 64 = ''64''"
    by code_simp
  with b64 have b: "write_node show_int show_int ?g 64 [] = ''64 (\<newline>)\<newline>''"
    by simp
  from srt out w3 b show ?thesis by blast
qed

text \<open>
  C9, as the claim words it, orders the weighted lines of a node by weight. On the graph
  of the output test the code prints, for node 3, weight 2 (to node 2) before weight -8
  (to node 6), as the test expects; the rendering by ascending weight differs.
\<close>

theorem operator_out_by_weight_counterexample:
  "operator_out show_int show_int
     \<lparr>g_nodes = {|1::int, 2, 3, 4, 5, 6, 64|},
      g_edges =
        [weighted_edge 1 5 (- 1 :: int), weighted_edge 2 1 1, unweighted_edge 2 4,
         weighted_edge 2 4 2, weighted_edge 3 2 2, weighted_edge 3 6 (- 8),
         unweighted_edge 4 1, weighted_edge 4 1 (- 4), weighted_edge 4 5 3,
         unweighted_edge 5 2, weighted_edge 6 2 5, weighted_edge 6 3 10]\<rparr>
     = ''\<newline>1 (\<newline>  1 -> 5 | W | -1\<newline>)\<newline>2 (\<newline>  2 -> 4 | U\<newline>  2 -> 1 | W | 1\<newline>  2 -> 4 | W | 2\<newline>)\<newline>3 (\<newline>  3 -> 2 | W | 2\<newline>  3 -> 6 | W | -8\<newline>)\<newline>4 (\<newline>  4 -> 1 | U\<newline>  4 -> 1 | W | -4\<newline>  4 -> 5 | W | 3\<newline>)\<newline>5 (\<newline>  5 -> 2 | U\<newline>)\<newline>6 (\<newline>  6 -> 2 | W | 5\<newline>  6 -> 3 | W | 10\<newline>)\<newline>64 (\<newline>)\<newline>''
   \<and> spec_text show_int show_int
     \<lparr>g_nodes = {|1::int, 2, 3, 4, 5, 6, 64|},
      g_edges =
        [weighted_edge 1 5 (- 1 :: int), weighted_edge 2 1 1, unweighted_edge 2 4,
         weighted_edge 2 4 2, weighted_edge 3 2 2, weighted_edge 3 6 (- 8),
         unweighted_edge 4 1, weighted_edge 4 1 (- 4), weighted_edge 4 5 3,
         unweighted_edge 5 2, weighted_edge 6 2 5, weighted_edge 6 3 10]\<rparr>
     = ''\<newline>1 (\<newline>  1 -> 5 | W | -1\<newline>)\<newline>2 (\<newline>  2 -> 4 | U\<newline>  2 -> 1 | W | 1\<newline>  2 -> 4 | W | 2\<newline>)\<newline>3 (\<newline>  3 -> 6 | W | -8\<newline>  3 -> 2 | W | 2\<newline>)\<newline>4 (\<newline>  4 -> 1 | U\<newline>  4 -> 1 | W | -4\<newline>  4 -> 5 | W | 3\<newline>)\<newline>5 (\<newline>  5 -> 2 | U\<newline>)\<newline>6 (\<newline>  6 -> 2 | W | 5\<newline>  6 -> 3 | W | 10\<newline>)\<newline>64 (\<newline>)\<newline>''
   \<and> operator_out show_int show_int
     \<lparr>g_nodes = {|1::int, 2, 3, 4, 5, 6, 64|},
      g_edges =
        [weighted_edge 1 5 (- 1 :: int), weighted_edge 2 1 1, unweighted_edge 2 4,
         weighted_edge 2 4 2, weighted_edge 3 2 2, weighted_edge 3 6 (- 8),
         unweighted_edge 4 1, weighted_edge 4 1 (- 4), weighted_edge 4 5 3,
         unweighted_edge 5 2, weighted_edge 6 2 5, weighted_edge 6 3 10]\<rparr>
     \<noteq> spec_text show_int show_int
     \<lparr>g_nodes = {|1::int, 2, 3, 4, 5, 6, 64|},
      g_edges =
        [weighted_edge 1 5 (- 1 :: int), weighted_edge 2 1 1, unweighted_edge 2 4,
         weighted_edge 2 4 2, weighted_edge 3 2 2, weighted_edge 3 6 (- 8),
         unweighted_edge 4 1, weighted_edge 4 1 (- 4), weighted_edge 4 5 3,
         unweighted_edge 5 2, weighted_edge 6 2 5, weighted_edge 6 3 10]\<rparr>"
proof -
  let ?g = "\<lparr>g_nodes = {|1::int, 2, 3, 4, 5, 6, 64|},
      g_edges =
        [weighted_edge 1 5 (- 1 :: int), weighted_edge 2 1 1, unweighted_edge 2 4,
         weighted_edge 2 4 2, weighted_edge 3 2 2, weighted_edge 3 6 (- 8),
         unweighted_edge 4 1, weighted_edge 4 1 (- 4), weighted_edge 4 5 3,
         unweighted_edge 5 2, weighted_edge 6 2 5, weighted_edge 6 3 10]\<rparr>"
  have a: "operator_out show_int show_int ?g
     = ''\<newline>1 (\<newline>  1 -> 5 | W | -1\<newline>)\<newline>2 (\<newline>  2 -> 4 | U\<newline>  2 -> 1 | W | 1\<newline>  2 -> 4 | W | 2\<newline>)\<newline>3 (\<newline>  3 -> 2 | W | 2\<newline>  3 -> 6 | W | -8\<newline>)\<newline>4 (\<newline>  4 -> 1 | U\<newline>  4 -> 1 | W | -4\<newline>  4 -> 5 | W | 3\<newline>)\<newline>5 (\<newline>  5 -> 2 | U\<newline>)\<newline>6 (\<newline>  6 -> 2 | W | 5\<newline>  6 -> 3 | W | 10\<newline>)\<newline>64 (\<newline>)\<newline>''"
    by (rule test_fixture_output)
  have b: "spec_text show_int show_int ?g
     = ''\<newline>1 (\<newline>  1 -> 5 | W | -1\<newline>)\<newline>2 (\<newline>  2 -> 4 | U\<newline>  2 -> 1 | W | 1\<newline>  2 -> 4 | W | 2\<newline>)\<newline>3 (\<newline>  3 -> 6 | W | -8\<newline>  3 -> 2 | W | 2\<newline>)\<newline>4 (\<newline>  4 -> 1 | U\<newline>  4 -> 1 | W | -4\<newline>  4 -> 5 | W | 3\<newline>)\<newline>5 (\<newline>  5 -> 2 | U\<newline>)\<newline>6 (\<newline>  6 -> 2 | W | 5\<newline>  6 -> 3 | W | 10\<newline>)\<newline>64 (\<newline>)\<newline>''"
    by code_simp
  have "''\<newline>1 (\<newline>  1 -> 5 | W | -1\<newline>)\<newline>2 (\<newline>  2 -> 4 | U\<newline>  2 -> 1 | W | 1\<newline>  2 -> 4 | W | 2\<newline>)\<newline>3 (\<newline>  3 -> 2 | W | 2\<newline>  3 -> 6 | W | -8\<newline>)\<newline>4 (\<newline>  4 -> 1 | U\<newline>  4 -> 1 | W | -4\<newline>  4 -> 5 | W | 3\<newline>)\<newline>5 (\<newline>  5 -> 2 | U\<newline>)\<newline>6 (\<newline>  6 -> 2 | W | 5\<newline>  6 -> 3 | W | 10\<newline>)\<newline>64 (\<newline>)\<newline>''
    \<noteq> ''\<newline>1 (\<newline>  1 -> 5 | W | -1\<newline>)\<newline>2 (\<newline>  2 -> 4 | U\<newline>  2 -> 1 | W | 1\<newline>  2 -> 4 | W | 2\<newline>)\<newline>3 (\<newline>  3 -> 6 | W | -8\<newline>  3 -> 2 | W | 2\<newline>)\<newline>4 (\<newline>  4 -> 1 | U\<newline>  4 -> 1 | W | -4\<newline>  4 -> 5 | W | 3\<newline>)\<newline>5 (\<newline>  5 -> 2 | U\<newline>)\<newline>6 (\<newline>  6 -> 2 | W | 5\<newline>  6 -> 3 | W | 10\<newline>)\<newline>64 (\<newline>)\<newline>''"
    by simp
  with a b show ?thesis by simp
qed

section \<open>The ordering invariant under the modifiers\<close>

lemma sorted_kept_by_other_modifiers:
  assumes "edges_sorted g"
  shows "edges_sorted (snd (insert_edge g s d weight))"
    and "edges_sorted (snd (merge_replace_node g s d))"
    and "edges_sorted (snd (erase_node g s))"
    and "edges_sorted (snd (erase_edge g s d weight))"
    and "edges_sorted (clear g)"
proof -
  show "edges_sorted (snd (insert_edge g s d weight))"
    using assms by (simp add: insert_edge_def Let_def edges_sorted_def sorted_std_sort)
  show "edges_sorted (snd (merge_replace_node g s d))"
    using assms
    by (simp add: merge_replace_node_def edges_sorted_def std_unique_edge_eq
        strict_sorted_sorted [OF merged_edges_strict])
  show "edges_sorted (snd (erase_node g s))"
    using assms by (simp add: erase_node_def edges_sorted_def remove_if_def sorted_wrt_filter)
  show "edges_sorted (snd (erase_edge g s d weight))"
    using assms
    by (simp add: erase_edge_def Let_def edges_sorted_def remove_if_def sorted_wrt_filter)
  show "edges_sorted (clear g)"
    by (simp add: clear_def edges_sorted_def)
qed

text \<open>
  C1 fails for \<open>replace_node\<close>, which rewrites the endpoints in place and does not
  sort afterwards. Nodes 1, 2, 3 and the unweighted edges 1 -> 3 and 2 -> 3 give a
  sorted edge store; \<open>replace_node(1, 4)\<close> returns true and leaves the records 4 -> 3,
  2 -> 3 in this order, which is not sorted, and iteration visits them in this order.
\<close>

theorem replace_node_leaves_unsorted:
  "build [Insert_node (1::int), Insert_node 2, Insert_node 3,
          Insert_edge 1 3 (None :: int option), Insert_edge 2 3 None] graph_default
     = Inr \<lparr>g_nodes = {|1, 2, 3|}, g_edges = [unweighted_edge 1 3, unweighted_edge 2 3]\<rparr>
   \<and> edges_sorted
        \<lparr>g_nodes = {|1::int, 2, 3|},
         g_edges = [unweighted_edge 1 3, unweighted_edge 2 3 :: (int, int) edge]\<rparr>
   \<and> replace_node
        \<lparr>g_nodes = {|1::int, 2, 3|},
         g_edges = [unweighted_edge 1 3, unweighted_edge 2 3 :: (int, int) edge]\<rparr> 1 4
     = (Inr True,
        \<lparr>g_nodes = {|2, 3, 4|}, g_edges = [unweighted_edge 4 3, unweighted_edge 2 3]\<rparr>)
   \<and> \<not> edges_sorted
        \<lparr>g_nodes = {|2::int, 3, 4|},
         g_edges = [unweighted_edge 4 3, unweighted_edge 2 3 :: (int, int) edge]\<rparr>
   \<and> iterate
        \<lparr>g_nodes = {|2::int, 3, 4|},
         g_edges = [unweighted_edge 4 3, unweighted_edge 2 3 :: (int, int) edge]\<rparr>
     = [(4, 3, None), (2, 3, None)]"
proof -
  have 1: "build [Insert_node (1::int), Insert_node 2, Insert_node 3,
          Insert_edge 1 3 (None :: int option), Insert_edge 2 3 None] graph_default
     = Inr \<lparr>g_nodes = {|1, 2, 3|}, g_edges = [unweighted_edge 1 3, unweighted_edge 2 3]\<rparr>"
    by code_simp
  have 2: "edges_sorted
        \<lparr>g_nodes = {|1::int, 2, 3|},
         g_edges = [unweighted_edge 1 3, unweighted_edge 2 3 :: (int, int) edge]\<rparr>"
    by (simp add: edges_sorted_def spec_order_def)
  have 3: "replace_node
        \<lparr>g_nodes = {|1::int, 2, 3|},
         g_edges = [unweighted_edge 1 3, unweighted_edge 2 3 :: (int, int) edge]\<rparr> 1 4
     = (Inr True,
        \<lparr>g_nodes = {|2, 3, 4|}, g_edges = [unweighted_edge 4 3, unweighted_edge 2 3]\<rparr>)"
    by (auto simp: replace_node_def is_node_def rewrite_edge_def Let_def)
  have 4: "\<not> edges_sorted
        \<lparr>g_nodes = {|2::int, 3, 4|},
         g_edges = [unweighted_edge 4 3, unweighted_edge 2 3 :: (int, int) edge]\<rparr>"
    by (simp add: edges_sorted_def spec_order_def)
  have 5: "iterate
        \<lparr>g_nodes = {|2::int, 3, 4|},
         g_edges = [unweighted_edge 4 3, unweighted_edge 2 3 :: (int, int) edge]\<rparr>
     = [(4, 3, None), (2, 3, None)]"
    by (simp add: iterate_def deref_def)
  from 1 2 3 4 5 show ?thesis by (intro conjI)
qed

end
